theory Spec2Isabelle
  imports Complex_Main "HOL-Library.Sublist" "HOL-Library.Log_Nat"
begin

section \<open>Python values\<close>

text \<open>
  A Python float is a finite value, an infinity or NaN. Every finite double is a rational
  number, so the finite values are embedded in \<^typ>\<open>rat\<close>; comparisons between an
  \<open>int\<close> and a \<open>float\<close> are exact in Python, and so they are here.
\<close>

datatype pyfloat = Finite rat | PosInf | NegInf | NaN

text \<open>
  What \<open>json.loads\<close> and \<open>request.get_json()\<close> return: \<open>None\<close>, \<open>bool\<close>, \<open>int\<close>,
  \<open>float\<close>, \<open>str\<close>, \<open>list\<close> and \<open>dict\<close> with string keys. A dict is an association list
  read with \<^const>\<open>map_of\<close>.
\<close>

datatype json =
    JNull
  | JBool bool
  | JInt int
  | JFloat pyfloat
  | JStr string
  | JList "json list"
  | JDict "(string \<times> json) list"

text \<open>The exception classes that the handlers tell apart; all derive from \<open>Exception\<close>.\<close>

datatype pyexc =
    TypeError
  | ValueError
  | KeyError
  | AttributeError
  | OverflowError
  | RecursionError
  | BadRequest
  | SQLAlchemyError

definition ebind :: "pyexc + 'a \<Rightarrow> ('a \<Rightarrow> pyexc + 'b) \<Rightarrow> pyexc + 'b" where
  "ebind m f = (case m of Inl e \<Rightarrow> Inl e | Inr a \<Rightarrow> f a)"

text \<open>\<open>key in data\<close>: key membership for a dict, element membership for a list, substring
  test for a str, \<open>TypeError\<close> for every other value.\<close>

fun py_in :: "string \<Rightarrow> json \<Rightarrow> pyexc + bool" where
  "py_in k (JDict kvs) = Inr (map_of kvs k \<noteq> None)"
| "py_in k (JList xs) = Inr (JStr k \<in> set xs)"
| "py_in k (JStr s) = Inr (sublist k s)"
| "py_in k JNull = Inl TypeError"
| "py_in k (JBool b) = Inl TypeError"
| "py_in k (JInt n) = Inl TypeError"
| "py_in k (JFloat f) = Inl TypeError"

text \<open>\<open>data[key]\<close> with a string key: only a dict can be indexed by a string.\<close>

fun py_getitem :: "json \<Rightarrow> string \<Rightarrow> pyexc + json" where
  "py_getitem (JDict kvs) k = (case map_of kvs k of None \<Rightarrow> Inl KeyError | Some v \<Rightarrow> Inr v)"
| "py_getitem JNull k = Inl TypeError"
| "py_getitem (JBool b) k = Inl TypeError"
| "py_getitem (JInt n) k = Inl TypeError"
| "py_getitem (JFloat f) k = Inl TypeError"
| "py_getitem (JStr s) k = Inl TypeError"
| "py_getitem (JList xs) k = Inl TypeError"

text \<open>\<open>data.get(key, default)\<close>: only a dict has the method.\<close>

fun py_get :: "json \<Rightarrow> string \<Rightarrow> json \<Rightarrow> pyexc + json" where
  "py_get (JDict kvs) k d = Inr (case map_of kvs k of None \<Rightarrow> d | Some v \<Rightarrow> v)"
| "py_get JNull k d = Inl AttributeError"
| "py_get (JBool b) k d = Inl AttributeError"
| "py_get (JInt n) k d = Inl AttributeError"
| "py_get (JFloat f) k d = Inl AttributeError"
| "py_get (JStr s) k d = Inl AttributeError"
| "py_get (JList xs) k d = Inl AttributeError"

text \<open>\<open>q <= v\<close> and \<open>q >= v\<close> for an \<open>int\<close> \<open>q\<close>: defined against \<open>int\<close>, \<open>float\<close> and
  \<open>bool\<close> (a subclass of \<open>int\<close>), \<open>TypeError\<close> otherwise. Comparisons with NaN are false.\<close>

fun int_le :: "int \<Rightarrow> json \<Rightarrow> pyexc + bool" where
  "int_le q (JInt n) = Inr (q \<le> n)"
| "int_le q (JBool b) = Inr (q \<le> (if b then 1 else 0))"
| "int_le q (JFloat (Finite r)) = Inr (of_int q \<le> r)"
| "int_le q (JFloat PosInf) = Inr True"
| "int_le q (JFloat NegInf) = Inr False"
| "int_le q (JFloat NaN) = Inr False"
| "int_le q JNull = Inl TypeError"
| "int_le q (JStr s) = Inl TypeError"
| "int_le q (JList xs) = Inl TypeError"
| "int_le q (JDict kvs) = Inl TypeError"

fun int_ge :: "int \<Rightarrow> json \<Rightarrow> pyexc + bool" where
  "int_ge q (JInt n) = Inr (q \<ge> n)"
| "int_ge q (JBool b) = Inr (q \<ge> (if b then 1 else 0))"
| "int_ge q (JFloat (Finite r)) = Inr (of_int q \<ge> r)"
| "int_ge q (JFloat PosInf) = Inr False"
| "int_ge q (JFloat NegInf) = Inr True"
| "int_ge q (JFloat NaN) = Inr False"
| "int_ge q JNull = Inl TypeError"
| "int_ge q (JStr s) = Inl TypeError"
| "int_ge q (JList xs) = Inl TypeError"
| "int_ge q (JDict kvs) = Inl TypeError"

text \<open>\<open>x == y\<close> on floats: NaN equals nothing, not even itself.\<close>

fun float_eq :: "pyfloat \<Rightarrow> pyfloat \<Rightarrow> bool" where
  "float_eq NaN y = False"
| "float_eq x NaN = False"
| "float_eq x y = (x = y)"

text \<open>\<open>float(n)\<close> for an \<open>int\<close>: the nearest double, ties to even, and \<open>OverflowError\<close>
  (here \<open>None\<close>) when that would not be finite. A double has 53 significant bits and is below
  \<open>2 ^ 1024\<close>.\<close>

definition int_to_float :: "int \<Rightarrow> pyfloat option" where
  "int_to_float n =
     (let a = \<bar>n\<bar>; k = bitlen a - 53 in
      if k \<le> 0 then Some (Finite (of_int n))
      else
        let m = a div 2 ^ nat k; r = a mod 2 ^ nat k; half = 2 ^ nat (k - 1);
            m' = (if r > half \<or> (r = half \<and> odd m) then m + 1 else m);
            v = m' * 2 ^ nat k
        in if v \<ge> 2 ^ 1024 then None else Some (Finite (of_int (sgn n * v))))"

text \<open>\<open>int(r)\<close> for a finite float: truncation towards zero.\<close>

definition trunc :: "rat \<Rightarrow> int" where
  "trunc r = (if r \<ge> 0 then \<lfloor>r\<rfloor> else \<lceil>r\<rceil>)"

fun join :: "string \<Rightarrow> string list \<Rightarrow> string" where
  "join sep [] = []"
| "join sep [x] = x"
| "join sep (x # y # ys) = x @ sep @ join sep (y # ys)"

section \<open>The Product model\<close>

text \<open>A point in time, as \<open>datetime.utcnow()\<close> returns it: a count of clock ticks.\<close>

type_synonym datetime = nat

text \<open>
  A row of table \<open>products\<close>. The attributes hold the Python values the routes assign:
  the prices are the results of \<open>float(...)\<close>, the quantity of \<open>int(...)\<close>, the alert
  configuration is the text produced by \<open>json.dumps\<close>, and the remaining columns take the
  request's values as they come (what a backend makes of a value that is not text in a
  text column is not modelled: the row keeps the value). Attribute \<open>id\<close> is written
  \<open>id'\<close>.
\<close>

record Product =
  id' :: nat
  product_index :: json
  name :: json
  buying_price :: pyfloat
  selling_price :: pyfloat
  quantity :: int
  alert_config :: string
  description :: json
  supplier_name :: json
  last_updated :: datetime
  category :: json

text \<open>
  The library functions the code calls and whose results depend on text: \<open>json.loads\<close>,
  \<open>json.dumps\<close>, \<open>float(str)\<close> and \<open>int(str)\<close> (\<open>None\<close> is their \<open>ValueError\<close>),
  \<open>str(e)\<close> of an exception, \<open>datetime.isoformat\<close>, and the storage backend's verdicts:
  on a row it is asked to write, beyond the constraints declared in the model class (column
  types, lengths and ranges belong to the database, which is configured outside the
  sources), and on a listing query with a given offset and limit.
\<close>

record env =
  json_loads :: "string \<Rightarrow> pyexc + json"
  json_dumps :: "json \<Rightarrow> pyexc + string"
  str_to_float :: "string \<Rightarrow> pyfloat option"
  str_to_int :: "string \<Rightarrow> int option"
  exc_str :: "pyexc \<Rightarrow> string"
  isoformat :: "datetime \<Rightarrow> string"
  db_accepts :: "Product \<Rightarrow> bool"
  db_lists :: "int \<Rightarrow> int \<Rightarrow> bool"

text \<open>\<open>float(v)\<close> and \<open>int(v)\<close> on a decoded JSON value.\<close>

fun py_float :: "env \<Rightarrow> json \<Rightarrow> pyexc + pyfloat" where
  "py_float E (JFloat f) = Inr f"
| "py_float E (JInt n) = (case int_to_float n of None \<Rightarrow> Inl OverflowError | Some f \<Rightarrow> Inr f)"
| "py_float E (JBool b) = Inr (Finite (if b then 1 else 0))"
| "py_float E (JStr s) = (case str_to_float E s of None \<Rightarrow> Inl ValueError | Some f \<Rightarrow> Inr f)"
| "py_float E JNull = Inl TypeError"
| "py_float E (JList xs) = Inl TypeError"
| "py_float E (JDict kvs) = Inl TypeError"

fun py_int :: "env \<Rightarrow> json \<Rightarrow> pyexc + int" where
  "py_int E (JInt n) = Inr n"
| "py_int E (JBool b) = Inr (if b then 1 else 0)"
| "py_int E (JFloat (Finite r)) = Inr (trunc r)"
| "py_int E (JFloat NaN) = Inl ValueError"
| "py_int E (JFloat PosInf) = Inl OverflowError"
| "py_int E (JFloat NegInf) = Inl OverflowError"
| "py_int E (JStr s) = (case str_to_int E s of None \<Rightarrow> Inl ValueError | Some n \<Rightarrow> Inr n)"
| "py_int E JNull = Inl TypeError"
| "py_int E (JList xs) = Inl TypeError"
| "py_int E (JDict kvs) = Inl TypeError"

text \<open>The body of the \<open>try\<close> block of property \<open>stock_alert\<close>.\<close>

definition stock_alert_try :: "env \<Rightarrow> Product \<Rightarrow> pyexc + string" where
  "stock_alert_try E p =
     ebind (json_loads E (alert_config p)) (\<lambda>config.
     ebind (py_get config ''in_stock'' (JInt 999999)) (\<lambda>in_stock.
     ebind (py_get config ''low_stock'' (JInt 0)) (\<lambda>low_stock.
       if quantity p \<le> 0 then Inr ''Out of Stock''
       else ebind (int_le (quantity p) low_stock) (\<lambda>low.
         if low then Inr ''Low Stock''
         else ebind (int_ge (quantity p) in_stock) (\<lambda>full.
           if full then Inr ''In Stock'' else Inr ''Moderate Stock'')))))"

definition stock_alert :: "env \<Rightarrow> Product \<Rightarrow> string" where
  "stock_alert E p =
     (case stock_alert_try E p of Inl e \<Rightarrow> ''Alert Config Error'' | Inr label \<Rightarrow> label)"

definition to_dict :: "env \<Rightarrow> Product \<Rightarrow> json" where
  "to_dict E p = JDict
     [(''id'', JInt (int (id' p))),
      (''product_index'', product_index p),
      (''name'', name p),
      (''buying_price'', JFloat (buying_price p)),
      (''selling_price'', JFloat (selling_price p)),
      (''quantity'', JInt (quantity p)),
      (''alert_level'', JStr (stock_alert E p)),
      (''alert_config'', JStr (alert_config p)),
      (''description'', description p),
      (''supplier_name'', supplier_name p),
      (''category'', category p),
      (''last_updated'', JStr (isoformat E (last_updated p)))]"

section \<open>Requests, responses and the store\<close>

text \<open>Of a request the routes read \<open>is_json\<close>, \<open>get_json()\<close> (which raises when the body
  is not JSON) and the query string \<open>args\<close>. A response is the pair of the JSON body and
  the status code.\<close>

record request =
  is_json :: bool
  get_json :: "pyexc + json"
  args :: "(string \<times> string) list"

type_synonym response = "json \<times> nat"

definition error_response :: "string \<Rightarrow> nat \<Rightarrow> response" where
  "error_response message status_code =
     (JDict [(''status'', JStr ''error''), (''message'', JStr message)], status_code)"

text \<open>The table: its rows in insertion order, and the next value of the primary key.\<close>

record db =
  rows :: "Product list"
  next_id :: nat

text \<open>Control inside a route's \<open>try\<close> block: go on with a value, \<open>return\<close> a response,
  or raise.\<close>

datatype 'a flow = Next 'a | Return response | Raise pyexc

definition fbind :: "'a flow \<Rightarrow> ('a \<Rightarrow> 'b flow) \<Rightarrow> 'b flow" where
  "fbind m f = (case m of Next a \<Rightarrow> f a | Return r \<Rightarrow> Return r | Raise e \<Rightarrow> Raise e)"

definition lift :: "pyexc + 'a \<Rightarrow> 'a flow" where
  "lift m = (case m of Inl e \<Rightarrow> Raise e | Inr a \<Rightarrow> Next a)"

text \<open>\<open>try: ... except ValueError: return error_response(message, 400)\<close>\<close>

definition except_ValueError :: "string \<Rightarrow> pyexc + 'a \<Rightarrow> 'a flow" where
  "except_ValueError message m =
     (case m of
        Inl e \<Rightarrow> if e = ValueError then Return (error_response message 400) else Raise e
      | Inr a \<Rightarrow> Next a)"

definition except_TypeError_ValueError :: "string \<Rightarrow> pyexc + 'a \<Rightarrow> 'a flow" where
  "except_TypeError_ValueError message m =
     (case m of
        Inl e \<Rightarrow>
          if e = TypeError \<or> e = ValueError then Return (error_response message 400)
          else Raise e
      | Inr a \<Rightarrow> Next a)"

section \<open>Persistence\<close>

text \<open>\<open>Product.query.get(product_id)\<close> and
  \<open>Product.query.filter_by(product_index=v).first()\<close>.\<close>

definition query_get :: "db \<Rightarrow> nat \<Rightarrow> Product option" where
  "query_get d product_id = find (\<lambda>p. id' p = product_id) (rows d)"

definition filter_by_product_index :: "db \<Rightarrow> json \<Rightarrow> Product option" where
  "filter_by_product_index d v = find (\<lambda>p. product_index p = v) (rows d)"

text \<open>
  \<open>db.session.add(new_product); db.session.commit()\<close>. The INSERT fails with an
  \<open>SQLAlchemyError\<close> when a column declared \<open>nullable=False\<close> would be NULL, when the
  \<open>unique=True\<close> column \<open>product_index\<close> would repeat, or when the backend refuses the
  row; the store is then left as it was.
\<close>

definition add_commit :: "env \<Rightarrow> db \<Rightarrow> Product \<Rightarrow> pyexc + Product \<times> db" where
  "add_commit E d row =
     (if product_index row = JNull \<or> name row = JNull
         \<or> filter_by_product_index d (product_index row) \<noteq> None
         \<or> \<not> db_accepts E row
      then Inl SQLAlchemyError
      else Inr (row, d\<lparr>rows := rows d @ [row], next_id := Suc (next_id d)\<rparr>))"

text \<open>
  \<open>db.session.commit()\<close> after attribute assignments on a loaded object. At flush time
  SQLAlchemy compares every assigned attribute with the value it loaded (\<open>==\<close> of
  Python); when none differs no UPDATE is emitted, and \<open>onupdate=datetime.utcnow\<close> of
  column \<open>last_updated\<close> runs only as part of an UPDATE. Otherwise the row with that
  primary key is rewritten with \<open>last_updated\<close> refreshed, unless \<open>name\<close>
  (\<open>nullable=False\<close>) was set to NULL or the backend refuses the row; the store is then
  left as it was. The attributes assigned by \<open>update_product\<close> are those whose key is in
  \<open>data\<close>; an attribute that was not assigned is not compared, which matters for a stored
  NaN only.
\<close>

definition assigned :: "json \<Rightarrow> string \<Rightarrow> bool" where
  "assigned data key \<longleftrightarrow> py_in key data = Inr True"

definition net_change :: "json \<Rightarrow> Product \<Rightarrow> Product \<Rightarrow> bool" where
  "net_change data old new \<longleftrightarrow>
     name new \<noteq> name old
     \<or> (assigned data ''buying_price'' \<and> \<not> float_eq (buying_price new) (buying_price old))
     \<or> (assigned data ''selling_price'' \<and> \<not> float_eq (selling_price new) (selling_price old))
     \<or> quantity new \<noteq> quantity old
     \<or> alert_config new \<noteq> alert_config old
     \<or> description new \<noteq> description old
     \<or> supplier_name new \<noteq> supplier_name old
     \<or> category new \<noteq> category old"

fun replace_row :: "Product \<Rightarrow> Product list \<Rightarrow> Product list" where
  "replace_row row [] = []"
| "replace_row row (r # rs) = (if id' r = id' row then row # rs else r # replace_row row rs)"

definition commit_update ::
  "env \<Rightarrow> datetime \<Rightarrow> db \<Rightarrow> json \<Rightarrow> Product \<Rightarrow> Product \<Rightarrow> pyexc + Product \<times> db" where
  "commit_update E now d data old new =
     (if \<not> net_change data old new then Inr (old, d)
      else
        let row = new\<lparr>last_updated := now\<rparr> in
        if (name new = JNull \<and> name new \<noteq> name old) \<or> \<not> db_accepts E row
        then Inl SQLAlchemyError
        else Inr (row, d\<lparr>rows := replace_row row (rows d)\<rparr>))"

section \<open>Listing\<close>

text \<open>\<open>request.args.get(key, default, type=int)\<close>: the default when the key is absent or
  \<open>int(text)\<close> raises \<open>ValueError\<close>, the converted value otherwise.\<close>

definition args_get_int :: "env \<Rightarrow> (string \<times> string) list \<Rightarrow> string \<Rightarrow> int \<Rightarrow> int" where
  "args_get_int E a key dflt =
     (case map_of a key of
        None \<Rightarrow> dflt
      | Some s \<Rightarrow> (case str_to_int E s of None \<Rightarrow> dflt | Some n \<Rightarrow> n))"

record pagination =
  items :: "Product list"
  total :: int
  pages :: int
  has_next :: bool
  has_prev :: bool

text \<open>
  Modelled from the spec: \<open>Query.paginate\<close> belongs to Flask-SQLAlchemy and is not among the
  sources. The spec describes simple offset/limit pagination in insertion order with
  \<open>pages\<close> the ceiling division of \<open>total\<close> by \<open>per_page\<close>, zero pages on an empty
  store, and an empty slice rather than a failure on an out-of-range page; \<open>has_prev\<close>
  and \<open>has_next\<close> say whether a page lies before or after the current one. With
  \<open>error_out=False\<close> the library does not reject a page below 1 or a page size below 1 but
  replaces them by 1 and by its own default of 20. The query \<open>list(offset, limit)\<close> that
  fetches the slice either succeeds or signals a storage-layer failure, as the spec says of
  every operation of the persistence collaborator; the failure is an exception here.
\<close>

definition paginate :: "env \<Rightarrow> Product list \<Rightarrow> int \<Rightarrow> int \<Rightarrow> pyexc + pagination" where
  "paginate E all page0 per_page0 =
     (let page = (if page0 < 1 then 1 else page0);
          per_page = (if per_page0 < 1 then 20 else per_page0);
          n = int (length all);
          count = (if n = 0 then 0 else \<lceil>(of_int n :: rat) / of_int per_page\<rceil>)
      in if \<not> db_lists E ((page - 1) * per_page) per_page then Inl SQLAlchemyError
         else Inr \<lparr>items = take (nat per_page) (drop (nat ((page - 1) * per_page)) all),
                   total = n,
                   pages = count,
                   has_next = (page < count),
                   has_prev = (page > 1)\<rparr>)"

text \<open>
  The listing route: the body of its \<open>try\<close> block, and the handler \<open>except Exception\<close>
  that answers 500. Of the calls in the block only the query can raise: \<open>stock_alert\<close>
  catches its own exceptions, and a stored row always has its \<open>last_updated\<close>.
\<close>

definition get_all_products :: "env \<Rightarrow> db \<Rightarrow> request \<Rightarrow> response" where
  "get_all_products E d req =
     (let page = args_get_int E (args req) ''page'' 1;
          per_page = args_get_int E (args req) ''per_page'' 25
      in case paginate E (rows d) page per_page of
           Inr products \<Rightarrow>
             (JDict
                [(''status'', JStr ''success''),
                 (''data'', JList (map (to_dict E) (items products))),
                 (''pagination'', JDict
                    [(''total'', JInt (total products)),
                     (''pages'', JInt (pages products)),
                     (''current_page'', JInt page),
                     (''per_page'', JInt per_page),
                     (''has_next'', JBool (has_next products)),
                     (''has_prev'', JBool (has_prev products))])], 200)
         | Inl e \<Rightarrow> error_response (''Failed to fetch products: '' @ exc_str E e) 500)"

section \<open>Creating a product\<close>

definition required_fields :: "string list" where
  "required_fields =
     [''product_index'', ''name'', ''buying_price'', ''selling_price'', ''quantity'',
      ''alert_config'']"

text \<open>\<open>[field for field in required_fields if field not in data]\<close>, for any list
  of field names.\<close>

fun missing_fields :: "json \<Rightarrow> string list \<Rightarrow> pyexc + string list" where
  "missing_fields data [] = Inr []"
| "missing_fields data (field # others) =
     ebind (py_in field data) (\<lambda>present.
     ebind (missing_fields data others) (\<lambda>rest.
       Inr (if present then rest else field # rest)))"

text \<open>
  The constructor call \<open>Product(product_index=..., ..., category=...)\<close>: its arguments are
  evaluated from left to right, and the first one that raises ends the call. The primary
  key and \<open>last_updated\<close> (\<open>default=datetime.utcnow\<close>) are supplied when the row is
  inserted; they are passed in here.
\<close>

definition new_product :: "env \<Rightarrow> json \<Rightarrow> string \<Rightarrow> nat \<Rightarrow> datetime \<Rightarrow> pyexc + Product" where
  "new_product E data config key now =
     ebind (py_getitem data ''product_index'') (\<lambda>v_index.
     ebind (py_getitem data ''name'') (\<lambda>v_name.
     ebind (ebind (py_getitem data ''buying_price'') (py_float E)) (\<lambda>v_buying.
     ebind (ebind (py_getitem data ''selling_price'') (py_float E)) (\<lambda>v_selling.
     ebind (ebind (py_getitem data ''quantity'') (py_int E)) (\<lambda>v_quantity.
     ebind (py_get data ''description'' (JStr [])) (\<lambda>v_description.
     ebind (py_get data ''supplier_name'' (JStr [])) (\<lambda>v_supplier.
     ebind (py_get data ''category'' (JStr [])) (\<lambda>v_category.
       Inr \<lparr>id' = key,
            product_index = v_index,
            name = v_name,
            buying_price = v_buying,
            selling_price = v_selling,
            quantity = v_quantity,
            alert_config = config,
            description = v_description,
            supplier_name = v_supplier,
            last_updated = now,
            category = v_category\<rparr>))))))))"

text \<open>The \<open>try\<close> block of \<open>create_new_product\<close>.\<close>

definition create_try :: "env \<Rightarrow> datetime \<Rightarrow> db \<Rightarrow> request \<Rightarrow> (response \<times> db) flow" where
  "create_try E now d req =
     (if \<not> is_json req then Return (error_response ''Request must be JSON'' 400)
      else
        fbind (lift (get_json req)) (\<lambda>data.
        fbind (lift (missing_fields data required_fields)) (\<lambda>missing.
          if missing \<noteq> []
          then Return (error_response (''Missing fields: '' @ join '', '' missing) 400)
          else
            fbind (except_TypeError_ValueError ''Invalid alert_config format''
                     (ebind (py_getitem data ''alert_config'') (json_dumps E))) (\<lambda>config.
            fbind (lift (py_getitem data ''product_index'')) (\<lambda>v_index.
              if filter_by_product_index d v_index \<noteq> None
              then Return (error_response ''Product index already exists'' 400)
              else
                fbind (lift (new_product E data config (next_id d) now)) (\<lambda>product.
                fbind (lift (add_commit E d product)) (\<lambda>(row, d').
                  Next ((JDict
                           [(''status'', JStr ''success''),
                            (''message'', JStr ''Product created successfully''),
                            (''data'', to_dict E row)], 201), d'))))))))"

text \<open>The route with its handlers: \<open>except ValueError\<close>, \<open>except SQLAlchemyError\<close> (with
  rollback), \<open>except Exception\<close>. Only a completed commit changes the store.\<close>

definition create_new_product :: "env \<Rightarrow> datetime \<Rightarrow> db \<Rightarrow> request \<Rightarrow> response \<times> db" where
  "create_new_product E now d req =
     (case create_try E now d req of
        Next (resp, d') \<Rightarrow> (resp, d')
      | Return resp \<Rightarrow> (resp, d)
      | Raise e \<Rightarrow>
          if e = ValueError
          then (error_response (''Invalid data format: '' @ exc_str E e) 400, d)
          else if e = SQLAlchemyError
          then (error_response (''Database error: '' @ exc_str E e) 500, d)
          else (error_response (''Unexpected error: '' @ exc_str E e) 500, d))"

section \<open>Updating a product\<close>

text \<open>One \<open>if key in data:\<close> step of \<open>update_product\<close>: \<open>assign\<close> is the body of the
  \<open>if\<close>; it receives the evaluation of \<open>data[key]\<close>, which it performs inside its own
  \<open>try\<close> where the source does.\<close>

definition if_in :: "string \<Rightarrow> json \<Rightarrow> (pyexc + json \<Rightarrow> Product flow) \<Rightarrow> Product \<Rightarrow> Product flow" where
  "if_in key data assign product =
     fbind (lift (py_in key data)) (\<lambda>present.
       if present then assign (py_getitem data key) else Next product)"

text \<open>The assignments of \<open>update_product\<close>, one definition for each \<open>if\<close> of the
  source. They change the loaded object only; nothing reaches the store before the commit.\<close>

definition set_name :: "json \<Rightarrow> Product \<Rightarrow> Product flow" where
  "set_name data product =
     if_in ''name'' data (\<lambda>item.
       fbind (lift item) (\<lambda>v. Next (product\<lparr>name := v\<rparr>))) product"

definition set_buying_price :: "env \<Rightarrow> json \<Rightarrow> Product \<Rightarrow> Product flow" where
  "set_buying_price E data product =
     if_in ''buying_price'' data (\<lambda>item.
       fbind (except_ValueError ''Invalid buying_price format'' (ebind item (py_float E)))
         (\<lambda>x. Next (product\<lparr>buying_price := x\<rparr>))) product"

definition set_selling_price :: "env \<Rightarrow> json \<Rightarrow> Product \<Rightarrow> Product flow" where
  "set_selling_price E data product =
     if_in ''selling_price'' data (\<lambda>item.
       fbind (except_ValueError ''Invalid selling_price format'' (ebind item (py_float E)))
         (\<lambda>x. Next (product\<lparr>selling_price := x\<rparr>))) product"

definition set_quantity :: "env \<Rightarrow> json \<Rightarrow> Product \<Rightarrow> Product flow" where
  "set_quantity E data product =
     if_in ''quantity'' data (\<lambda>item.
       fbind (except_ValueError ''Invalid quantity format'' (ebind item (py_int E)))
         (\<lambda>x. Next (product\<lparr>quantity := x\<rparr>))) product"

definition set_alert_config :: "env \<Rightarrow> json \<Rightarrow> Product \<Rightarrow> Product flow" where
  "set_alert_config E data product =
     if_in ''alert_config'' data (\<lambda>item.
       fbind (except_TypeError_ValueError ''Invalid alert_config format''
                (ebind item (json_dumps E)))
         (\<lambda>x. Next (product\<lparr>alert_config := x\<rparr>))) product"

definition set_description :: "json \<Rightarrow> Product \<Rightarrow> Product flow" where
  "set_description data product =
     if_in ''description'' data (\<lambda>item.
       fbind (lift item) (\<lambda>v. Next (product\<lparr>description := v\<rparr>))) product"

definition set_supplier_name :: "json \<Rightarrow> Product \<Rightarrow> Product flow" where
  "set_supplier_name data product =
     if_in ''supplier_name'' data (\<lambda>item.
       fbind (lift item) (\<lambda>v. Next (product\<lparr>supplier_name := v\<rparr>))) product"

definition set_category :: "json \<Rightarrow> Product \<Rightarrow> Product flow" where
  "set_category data product =
     if_in ''category'' data (\<lambda>item.
       fbind (lift item) (\<lambda>v. Next (product\<lparr>category := v\<rparr>))) product"

definition assign_fields :: "env \<Rightarrow> json \<Rightarrow> Product \<Rightarrow> Product flow" where
  "assign_fields E data product =
     fbind (set_name data product) (\<lambda>p1.
     fbind (set_buying_price E data p1) (\<lambda>p2.
     fbind (set_selling_price E data p2) (\<lambda>p3.
     fbind (set_quantity E data p3) (\<lambda>p4.
     fbind (set_alert_config E data p4) (\<lambda>p5.
     fbind (set_description data p5) (\<lambda>p6.
     fbind (set_supplier_name data p6) (\<lambda>p7.
     set_category data p7)))))))"

text \<open>The answer of \<open>update_product\<close> after the commit, and the \<open>try\<close> block that
  leads to it.\<close>

definition update_success :: "env \<Rightarrow> Product \<Rightarrow> response" where
  "update_success E row =
     (JDict [(''status'', JStr ''success''),
             (''message'', JStr ''Product updated successfully''),
             (''data'', to_dict E row)], 200)"

definition update_try :: "env \<Rightarrow> datetime \<Rightarrow> db \<Rightarrow> request \<Rightarrow> nat \<Rightarrow> (response \<times> db) flow" where
  "update_try E now d req product_id =
     (if \<not> is_json req then Return (error_response ''Request must be JSON'' 400)
      else
        case query_get d product_id of
          None \<Rightarrow> Return (error_response ''Product not found'' 404)
        | Some product \<Rightarrow>
            fbind (lift (get_json req)) (\<lambda>data.
            fbind (assign_fields E data product) (\<lambda>changed.
            fbind (lift (commit_update E now d data product changed)) (\<lambda>(row, d').
              Next (update_success E row, d')))))"

definition update_product :: "env \<Rightarrow> datetime \<Rightarrow> db \<Rightarrow> request \<Rightarrow> nat \<Rightarrow> response \<times> db" where
  "update_product E now d req product_id =
     (case update_try E now d req product_id of
        Next (resp, d') \<Rightarrow> (resp, d')
      | Return resp \<Rightarrow> (resp, d)
      | Raise e \<Rightarrow>
          if e = SQLAlchemyError
          then (error_response (''Database error: '' @ exc_str E e) 500, d)
          else (error_response (''Unexpected error: '' @ exc_str E e) 500, d))"

section \<open>Notions used in the statements\<close>

text \<open>The number a decoded threshold denotes, if it is an \<open>int\<close> or a \<open>float\<close>, and the
  order of numbers (NaN is unordered).\<close>

fun number_value :: "json \<Rightarrow> pyfloat option" where
  "number_value (JInt n) = Some (Finite (of_int n))"
| "number_value (JFloat f) = Some f"
| "number_value v = None"

fun float_le :: "pyfloat \<Rightarrow> pyfloat \<Rightarrow> bool" where
  "float_le NaN y = False"
| "float_le x NaN = False"
| "float_le NegInf y = True"
| "float_le x PosInf = True"
| "float_le (Finite a) (Finite b) = (a \<le> b)"
| "float_le PosInf y = False"
| "float_le x NegInf = False"

definition float_lt :: "pyfloat \<Rightarrow> pyfloat \<Rightarrow> bool" where
  "float_lt x y \<longleftrightarrow> float_le x y \<and> \<not> float_le y x"

text \<open>The number an \<open>int\<close> is compared with when the other operand is the given value:
  as above, and a \<open>bool\<close> counts as 1 or 0; no other value can be compared. The threshold
  of a decoded configuration is its entry, or the default when the entry is absent.\<close>

fun compared_value :: "json \<Rightarrow> pyfloat option" where
  "compared_value (JBool b) = Some (Finite (if b then 1 else 0))"
| "compared_value v = number_value v"

definition threshold :: "(string \<times> json) list \<Rightarrow> string \<Rightarrow> json \<Rightarrow> json" where
  "threshold cfg key dflt = (case map_of cfg key of None \<Rightarrow> dflt | Some v \<Rightarrow> v)"

text \<open>Reading a response: a field of the JSON body, a field of its \<open>pagination\<close>
  object, and the number of records in its \<open>data\<close> array.\<close>

definition json_field :: "string \<Rightarrow> json \<Rightarrow> json option" where
  "json_field k v = (case v of JDict kvs \<Rightarrow> map_of kvs k | _ \<Rightarrow> None)"

definition pagination_field :: "string \<Rightarrow> response \<Rightarrow> json option" where
  "pagination_field k resp = Option.bind (json_field ''pagination'' (fst resp)) (json_field k)"

definition data_length :: "response \<Rightarrow> nat option" where
  "data_length resp =
     (case json_field ''data'' (fst resp) of Some (JList xs) \<Rightarrow> Some (length xs) | _ \<Rightarrow> None)"

text \<open>The integer a query-string parameter carries, if the parameter is present and its
  text converts.\<close>

definition int_arg :: "env \<Rightarrow> request \<Rightarrow> string \<Rightarrow> int option" where
  "int_arg E req k = Option.bind (map_of (args req) k) (str_to_int E)"

text \<open>The columns no update may touch: primary key, \<open>product_index\<close>, and (before the
  commit) \<open>last_updated\<close>.\<close>

definition same_key :: "Product \<Rightarrow> Product \<Rightarrow> bool" where
  "same_key p p' \<longleftrightarrow>
     id' p' = id' p \<and> product_index p' = product_index p \<and> last_updated p' = last_updated p"

text \<open>The records that a page of a given size selects from the rows, by offset and
  limit.\<close>

definition page_of_rows :: "Product list \<Rightarrow> int \<Rightarrow> int \<Rightarrow> Product list" where
  "page_of_rows xs page per_page = take (nat per_page) (drop (nat ((page - 1) * per_page)) xs)"

text \<open>
  A concrete environment, concrete rows and concrete requests, on which the model is
  evaluated below. The environment agrees with Python on the texts that are decoded,
  encoded and converted there; its renderings of exceptions and of times are left empty,
  and its backend accepts every row and answers a listing query whose offset and limit fit
  a signed 64-bit integer. Every general theorem holds for all environments.
\<close>

definition example_loads :: "string \<Rightarrow> pyexc + json" where
  "example_loads s =
     (if s = ''{\"low_stock\": 5, \"in_stock\": 20}''
      then Inr (JDict [(''low_stock'', JInt 5), (''in_stock'', JInt 20)])
      else if s = ''{\"low_stock\": -1, \"in_stock\": 0}''
      then Inr (JDict [(''low_stock'', JInt (- 1)), (''in_stock'', JInt 0)])
      else if s = ''{\"low_stock\": \"a\", \"in_stock\": 20}''
      then Inr (JDict [(''low_stock'', JStr ''a''), (''in_stock'', JInt 20)])
      else Inl ValueError)"

definition example_dumps :: "json \<Rightarrow> pyexc + string" where
  "example_dumps v =
     (if v = JDict [(''low_stock'', JInt 5), (''in_stock'', JInt 20)]
      then Inr ''{\"low_stock\": 5, \"in_stock\": 20}''
      else if v = JDict [(''low_stock'', JStr ''a''), (''in_stock'', JInt 20)]
      then Inr ''{\"low_stock\": \"a\", \"in_stock\": 20}''
      else Inl TypeError)"

definition example_int :: "string \<Rightarrow> int option" where
  "example_int s =
     (if s = ''0'' then Some 0
      else if s = ''3'' then Some 3
      else if s = ''4'' then Some 4
      else if s = ''25'' then Some 25
      else if s = ''-5'' then Some (- 5)
      else if s = ''10000000000000000000'' then Some 10000000000000000000
      else None)"

definition example_env :: env where
  "example_env =
     \<lparr>json_loads = example_loads,
      json_dumps = example_dumps,
      str_to_float = (\<lambda>s. None),
      str_to_int = example_int,
      exc_str = (\<lambda>e. []),
      isoformat = (\<lambda>t. []),
      db_accepts = (\<lambda>row. True),
      db_lists = (\<lambda>offset limit. offset < 2 ^ 63 \<and> limit < 2 ^ 63)\<rparr>"

definition example_product :: Product where
  "example_product =
     \<lparr>id' = 1,
      product_index = JStr ''P-1'',
      name = JStr ''Widget'',
      buying_price = Finite 2,
      selling_price = Finite 3,
      quantity = 7,
      alert_config = ''{\"low_stock\": 5, \"in_stock\": 20}'',
      description = JStr [],
      supplier_name = JStr [],
      last_updated = 100,
      category = JStr []\<rparr>"

definition example_db :: db where
  "example_db = \<lparr>rows = [example_product], next_id = 2\<rparr>"

definition example_body :: "(string \<times> json) list" where
  "example_body =
     [(''product_index'', JStr ''P-2''),
      (''name'', JStr ''Bolt''),
      (''buying_price'', JFloat (Finite (5 / 2))),
      (''selling_price'', JInt 3),
      (''quantity'', JStr ''4''),
      (''alert_config'', JDict [(''low_stock'', JInt 5), (''in_stock'', JInt 20)])]"

definition json_request :: "json \<Rightarrow> request" where
  "json_request body = \<lparr>is_json = True, get_json = Inr body, args = []\<rparr>"

definition get_request :: "(string \<times> string) list \<Rightarrow> request" where
  "get_request a = \<lparr>is_json = False, get_json = Inl BadRequest, args = a\<rparr>"

definition example_db60 :: db where
  "example_db60 =
     \<lparr>rows = map (\<lambda>i. example_product\<lparr>id' := i, product_index := JStr (replicate i CHR ''x'')\<rparr>)
               [1..<61],
      next_id = 61\<rparr>"

lemmas example_defs = example_env_def example_loads_def example_dumps_def example_int_def
  example_product_def example_db_def example_body_def json_request_def

section \<open>The alert classifier\<close>

lemma int_le_number: "number_value v = Some x \<Longrightarrow> int_le q v = Inr (float_le (Finite (of_int q)) x)"
  by (cases v; cases x) auto

lemma int_ge_number: "number_value v = Some x \<Longrightarrow> int_ge q v = Inr (float_le x (Finite (of_int q)))"
  by (cases v; cases x) auto

lemma float_le_trans: "float_le x y \<Longrightarrow> float_le y z \<Longrightarrow> float_le x z"
  by (cases x; cases y; cases z) auto

lemma stock_alert_not_dict:
  assumes "json_loads E (alert_config p) = Inr v" and "\<forall>cfg. v \<noteq> JDict cfg"
  shows "stock_alert_try E p = Inl AttributeError"
  using assms by (cases v) (simp_all add: stock_alert_try_def ebind_def)

text \<open>
  Claim C1, as amended. When the alert configuration decodes to an object whose
  \<open>low_stock\<close> and \<open>in_stock\<close> are numbers \<open>l < i\<close>, the label is "Out of Stock" iff
  \<open>q \<le> 0\<close>, "Low Stock" iff \<open>0 < q \<le> l\<close>, "In Stock" iff \<open>0 < q\<close> and \<open>q \<ge> i\<close>, and
  "Moderate Stock" otherwise. The rules are tried in order, so a quantity \<open>q \<le> 0\<close> is
  "Out of Stock" also when \<open>q \<ge> i\<close>.
\<close>

theorem stock_alert_classification:
  assumes "json_loads E (alert_config p) = Inr (JDict cfg)"
    and "map_of cfg ''low_stock'' = Some lv" and "map_of cfg ''in_stock'' = Some iv"
    and "number_value lv = Some l" and "number_value iv = Some i"
    and "float_lt l i"
  shows "(stock_alert E p = ''Out of Stock'' \<longleftrightarrow> quantity p \<le> 0)
     \<and> (stock_alert E p = ''Low Stock'' \<longleftrightarrow>
          0 < quantity p \<and> float_le (Finite (of_int (quantity p))) l)
     \<and> (stock_alert E p = ''In Stock'' \<longleftrightarrow>
          0 < quantity p \<and> float_le i (Finite (of_int (quantity p))))
     \<and> (stock_alert E p = ''Moderate Stock'' \<longleftrightarrow>
          0 < quantity p \<and> \<not> float_le (Finite (of_int (quantity p))) l
          \<and> \<not> float_le i (Finite (of_int (quantity p))))"
proof -
  let ?q = "Finite (of_int (quantity p))"
  have excl: "float_le i ?q \<Longrightarrow> \<not> float_le ?q l"
    using assms(6) float_le_trans[of i ?q l] by (auto simp: float_lt_def)
  have "stock_alert E p =
      (if quantity p \<le> 0 then ''Out of Stock''
       else if float_le ?q l then ''Low Stock''
       else if float_le i ?q then ''In Stock'' else ''Moderate Stock'')"
    using assms(1-5)
    by (simp add: stock_alert_def stock_alert_try_def ebind_def int_le_number int_ge_number)
  then show ?thesis using excl by auto
qed


theorem stock_alert_classification_witness:
  "json_loads example_env (alert_config example_product)
       = Inr (JDict [(''low_stock'', JInt 5), (''in_stock'', JInt 20)])
   \<and> map_of [(''low_stock'', JInt 5), (''in_stock'', JInt 20)] ''low_stock'' = Some (JInt 5)
   \<and> map_of [(''low_stock'', JInt 5), (''in_stock'', JInt 20)] ''in_stock'' = Some (JInt 20)
   \<and> number_value (JInt 5) = Some (Finite 5) \<and> number_value (JInt 20) = Some (Finite 20)
   \<and> float_lt (Finite 5) (Finite 20)
   \<and> quantity example_product = 7
   \<and> stock_alert example_env example_product = ''Moderate Stock''"
proof -
  have h1: "json_loads example_env (alert_config example_product)
       = Inr (JDict [(''low_stock'', JInt 5), (''in_stock'', JInt 20)])"
    by (simp add: example_defs)
  have h2: "map_of [(''low_stock'', JInt 5), (''in_stock'', JInt 20)] ''low_stock'' = Some (JInt 5)"
    by simp
  have h3: "map_of [(''low_stock'', JInt 5), (''in_stock'', JInt 20)] ''in_stock'' = Some (JInt 20)"
    by simp
  have h4: "number_value (JInt 5) = Some (Finite 5)" and h5: "number_value (JInt 20) = Some (Finite 20)"
    by simp_all
  have h6: "float_lt (Finite 5) (Finite 20)" by (simp add: float_lt_def)
  have q: "quantity example_product = 7" by (simp add: example_product_def)
  from stock_alert_classification [OF h1 h2 h3 h4 h5 h6]
  have "stock_alert example_env example_product = ''Moderate Stock''"
    by (simp add: q)
  with h1 h2 h3 h4 h5 h6 q show ?thesis by blast
qed

text \<open>
  Claim C1 as stated fails: with thresholds \<open>low_stock = -1 < in_stock = 0\<close> and quantity
  \<open>0\<close>, the quantity is at least \<open>in_stock\<close> and yet the label is "Out of Stock", not
  "In Stock".
\<close>

theorem stock_alert_in_stock_counterexample:
  "json_loads example_env ''{\"low_stock\": -1, \"in_stock\": 0}''
       = Inr (JDict [(''low_stock'', JInt (- 1)), (''in_stock'', JInt 0)])
   \<and> (- 1 :: int) < 0
   \<and> \<not> (stock_alert example_env
            (example_product\<lparr>quantity := 0,
               alert_config := ''{\"low_stock\": -1, \"in_stock\": 0}''\<rparr>) = ''In Stock''
          \<longleftrightarrow> (0 :: int) \<ge> 0)"
  by (simp add: example_defs stock_alert_def stock_alert_try_def ebind_def)

lemma int_le_compared:
  "int_le q v = (case compared_value v of
                   None \<Rightarrow> Inl TypeError
                 | Some x \<Rightarrow> Inr (float_le (Finite (of_int q)) x))"
  by (cases "(q, v)" rule: int_le.cases) simp_all

lemma int_ge_compared:
  "int_ge q v = (case compared_value v of
                   None \<Rightarrow> Inl TypeError
                 | Some x \<Rightarrow> Inr (float_le x (Finite (of_int q))))"
  by (cases "(q, v)" rule: int_ge.cases) simp_all

lemma stock_alert_object:
  assumes "json_loads E (alert_config p) = Inr (JDict cfg)"
  shows "stock_alert E p =
     (if quantity p \<le> 0 then ''Out of Stock''
      else case compared_value (threshold cfg ''low_stock'' (JInt 0)) of
             None \<Rightarrow> ''Alert Config Error''
           | Some l \<Rightarrow>
               if float_le (Finite (of_int (quantity p))) l then ''Low Stock''
               else case compared_value (threshold cfg ''in_stock'' (JInt 999999)) of
                      None \<Rightarrow> ''Alert Config Error''
                    | Some i \<Rightarrow>
                        if float_le i (Finite (of_int (quantity p))) then ''In Stock''
                        else ''Moderate Stock'')"
  using assms
  by (simp add: stock_alert_def stock_alert_try_def ebind_def threshold_def
        int_le_compared int_ge_compared split: option.splits)

text \<open>
  Claim C2, as amended. The classifier raises nothing: it always returns one of its five
  labels. It returns "Alert Config Error" exactly when the configuration does not decode,
  or decodes to something other than an object, or the quantity is positive and a threshold
  that the comparisons reach cannot be compared with an integer: \<open>low_stock\<close>, or
  \<open>in_stock\<close> when the quantity exceeds \<open>low_stock\<close>. With a quantity \<open>q \<le> 0\<close> the
  label of an object is "Out of Stock" whatever its thresholds are, and an absent threshold
  takes its default, 0 for \<open>low_stock\<close> and 999999 for \<open>in_stock\<close>: the label of an
  object is given by the ordered rules on the thresholds so completed.
\<close>

theorem stock_alert_error:
  "stock_alert E p \<in> {''Out of Stock'', ''Low Stock'', ''In Stock'', ''Moderate Stock'',
                        ''Alert Config Error''}
   \<and> (\<forall>e. json_loads E (alert_config p) = Inl e \<longrightarrow>
          stock_alert E p = ''Alert Config Error'')
   \<and> (\<forall>v. json_loads E (alert_config p) = Inr v \<and> (\<forall>cfg. v \<noteq> JDict cfg) \<longrightarrow>
          stock_alert E p = ''Alert Config Error'')
   \<and> (\<forall>cfg. json_loads E (alert_config p) = Inr (JDict cfg) \<longrightarrow>
          (quantity p \<le> 0 \<longrightarrow> stock_alert E p = ''Out of Stock'')
        \<and> (stock_alert E p = ''Alert Config Error'' \<longleftrightarrow>
             0 < quantity p
             \<and> (compared_value (threshold cfg ''low_stock'' (JInt 0)) = None
                \<or> (\<exists>l. compared_value (threshold cfg ''low_stock'' (JInt 0)) = Some l
                       \<and> \<not> float_le (Finite (of_int (quantity p))) l
                       \<and> compared_value (threshold cfg ''in_stock'' (JInt 999999)) = None)))
        \<and> stock_alert E p =
            (if quantity p \<le> 0 then ''Out of Stock''
             else case compared_value (threshold cfg ''low_stock'' (JInt 0)) of
                    None \<Rightarrow> ''Alert Config Error''
                  | Some l \<Rightarrow>
                      if float_le (Finite (of_int (quantity p))) l then ''Low Stock''
                      else case compared_value (threshold cfg ''in_stock'' (JInt 999999)) of
                             None \<Rightarrow> ''Alert Config Error''
                           | Some i \<Rightarrow>
                               if float_le i (Finite (of_int (quantity p))) then ''In Stock''
                               else ''Moderate Stock''))"
proof -
  have fail: "stock_alert E p = ''Alert Config Error''"
    if "json_loads E (alert_config p) = Inl e" for e
    using that by (simp add: stock_alert_def stock_alert_try_def ebind_def)
  have other: "stock_alert E p = ''Alert Config Error''"
    if "json_loads E (alert_config p) = Inr v" "\<forall>cfg. v \<noteq> JDict cfg" for v
    using stock_alert_not_dict[OF that] by (simp add: stock_alert_def)
  have obj: "stock_alert E p =
            (if quantity p \<le> 0 then ''Out of Stock''
             else case compared_value (threshold cfg ''low_stock'' (JInt 0)) of
                    None \<Rightarrow> ''Alert Config Error''
                  | Some l \<Rightarrow>
                      if float_le (Finite (of_int (quantity p))) l then ''Low Stock''
                      else case compared_value (threshold cfg ''in_stock'' (JInt 999999)) of
                             None \<Rightarrow> ''Alert Config Error''
                           | Some i \<Rightarrow>
                               if float_le i (Finite (of_int (quantity p))) then ''In Stock''
                               else ''Moderate Stock'')"
    if "json_loads E (alert_config p) = Inr (JDict cfg)" for cfg
    using that by (rule stock_alert_object)
  have out: "stock_alert E p = ''Out of Stock''"
    if "json_loads E (alert_config p) = Inr (JDict cfg)" "quantity p \<le> 0" for cfg
    using obj[OF that(1)] that(2) by simp
  have err: "stock_alert E p = ''Alert Config Error'' \<longleftrightarrow>
             0 < quantity p
             \<and> (compared_value (threshold cfg ''low_stock'' (JInt 0)) = None
                \<or> (\<exists>l. compared_value (threshold cfg ''low_stock'' (JInt 0)) = Some l
                       \<and> \<not> float_le (Finite (of_int (quantity p))) l
                       \<and> compared_value (threshold cfg ''in_stock'' (JInt 999999)) = None))"
    if "json_loads E (alert_config p) = Inr (JDict cfg)" for cfg
    unfolding obj[OF that] by (auto split: option.splits)
  have labels: "stock_alert E p \<in> {''Out of Stock'', ''Low Stock'', ''In Stock'',
      ''Moderate Stock'', ''Alert Config Error''}"
  proof (cases "json_loads E (alert_config p)")
    case (Inl e)
    then show ?thesis by (simp add: fail)
  next
    case (Inr v)
    show ?thesis
    proof (cases "\<exists>cfg. v = JDict cfg")
      case True
      then obtain cfg where "json_loads E (alert_config p) = Inr (JDict cfg)"
        using Inr by blast
      then show ?thesis
        unfolding obj[OF \<open>json_loads E (alert_config p) = Inr (JDict cfg)\<close>]
        by (simp split: option.splits)
    next
      case False
      then show ?thesis using other[OF Inr] by simp
    qed
  qed
  from labels fail other obj out err show ?thesis by blast
qed

theorem stock_alert_error_witness:
  "json_loads example_env ''{\"low_stock\": \"a\", \"in_stock\": 20}''
       = Inr (JDict [(''low_stock'', JStr ''a''), (''in_stock'', JInt 20)])
   \<and> compared_value (threshold [(''low_stock'', JStr ''a''), (''in_stock'', JInt 20)]
         ''low_stock'' (JInt 0)) = None
   \<and> stock_alert example_env
        (example_product\<lparr>alert_config := ''{\"low_stock\": \"a\", \"in_stock\": 20}''\<rparr>)
      = ''Alert Config Error''"
proof -
  let ?p = "example_product\<lparr>alert_config := ''{\"low_stock\": \"a\", \"in_stock\": 20}''\<rparr>"
  let ?cfg = "[(''low_stock'', JStr ''a''), (''in_stock'', JInt 20)]"
  have h1: "json_loads example_env (alert_config ?p) = Inr (JDict ?cfg)"
    by (simp add: example_defs)
  have h2: "compared_value (threshold ?cfg ''low_stock'' (JInt 0)) = None"
    by (simp add: threshold_def)
  have h3: "0 < quantity ?p"
    by (simp add: example_product_def)
  from stock_alert_error [of example_env ?p] h1 h2 h3
  have "stock_alert example_env ?p = ''Alert Config Error''"
    by blast
  with h1 h2 show ?thesis by simp
qed

text \<open>
  Claim C2 as stated fails: the configuration below decodes to an object whose
  \<open>low_stock\<close> is a string, and with quantity \<open>0\<close> the label is "Out of Stock".
\<close>

theorem stock_alert_error_counterexample:
  "json_loads example_env ''{\"low_stock\": \"a\", \"in_stock\": 20}''
       = Inr (JDict [(''low_stock'', JStr ''a''), (''in_stock'', JInt 20)])
   \<and> number_value (JStr ''a'') = None
   \<and> stock_alert example_env
         (example_product\<lparr>quantity := 0,
            alert_config := ''{\"low_stock\": \"a\", \"in_stock\": 20}''\<rparr>) = ''Out of Stock''
   \<and> ''Out of Stock'' \<noteq> ''Alert Config Error''"
  by (simp add: example_defs stock_alert_def stock_alert_try_def ebind_def)

section \<open>Creating a product: properties\<close>

lemmas create_defs = create_new_product_def create_try_def fbind_def lift_def ebind_def
  except_TypeError_ValueError_def required_fields_def new_product_def add_commit_def
  filter_by_product_index_def error_response_def

lemma missing_fields_dict:
  "missing_fields (JDict kvs) fs = Inr (filter (\<lambda>f. map_of kvs f = None) fs)"
  by (induction fs) (simp_all add: ebind_def)

lemma sublist_prepend: "sublist xs ys \<Longrightarrow> sublist xs (ps @ ys)"
  by (simp add: sublist_append)

lemma sublist_join: "x \<in> set xs \<Longrightarrow> sublist x (join sep xs)"
proof (induction sep xs rule: join.induct)
  case (1 sep)
  then show ?case by simp
next
  case (2 sep y)
  then show ?case by simp
next
  case (3 sep a b bs)
  show ?case
  proof (cases "x = a")
    case True
    then show ?thesis by simp
  next
    case False
    with 3 have "sublist x (join sep (b # bs))" by simp
    then show ?thesis by (simp add: sublist_append)
  qed
qed

lemma create_try_missing:
  assumes "is_json req" and "get_json req = Inr (JDict kvs)"
    and "filter (\<lambda>f. map_of kvs f = None) required_fields \<noteq> []"
  shows "create_try E now d req =
     Return (error_response (''Missing fields: ''
        @ join '', '' (filter (\<lambda>f. map_of kvs f = None) required_fields)) 400)"
  using assms by (simp add: create_try_def fbind_def lift_def missing_fields_dict)

lemma error_response_status [simp]: "snd (error_response m c) = c"
  by (simp add: error_response_def)

lemma create_store_changes:
  assumes "snd (create_new_product E now d req) \<noteq> d"
  shows "\<exists>data idx. get_json req = Inr data \<and> py_getitem data ''product_index'' = Inr idx
           \<and> filter_by_product_index d idx = None"
  using assms
  by (auto simp: create_new_product_def create_try_def fbind_def lift_def
        except_TypeError_ValueError_def
        split: if_splits flow.splits sum.splits prod.splits)

lemma create_success:
  assumes "create_new_product E now d req = (resp, d')" and "snd resp = 201"
  shows "\<exists>data config row.
           get_json req = Inr data
         \<and> new_product E data config (next_id d) now = Inr row
         \<and> d' = d\<lparr>rows := rows d @ [row], next_id := Suc (next_id d)\<rparr>"
  using assms
  by (auto simp: create_new_product_def create_try_def fbind_def lift_def
        except_TypeError_ValueError_def add_commit_def error_response_def
        split: if_splits flow.splits sum.splits prod.splits)


lemma new_product_fields:
  assumes "new_product E data config key now = Inr row"
  shows "\<exists>kvs. data = JDict kvs
     \<and> description row = (case map_of kvs ''description'' of None \<Rightarrow> JStr [] | Some v \<Rightarrow> v)
     \<and> supplier_name row = (case map_of kvs ''supplier_name'' of None \<Rightarrow> JStr [] | Some v \<Rightarrow> v)
     \<and> category row = (case map_of kvs ''category'' of None \<Rightarrow> JStr [] | Some v \<Rightarrow> v)"
  using assms
  by (cases data) (auto simp: new_product_def ebind_def split: sum.splits option.splits)

text \<open>
  Claim C5. A create request (sent as JSON, with an object as body) from which required
  fields are absent, two or more in particular, is answered with status 400 and the message
  "Missing fields: " followed by all the absent fields, separated by commas; every absent
  field occurs in the message, and nothing is stored.
\<close>

theorem create_missing_fields:
  assumes "is_json req" and "get_json req = Inr (JDict kvs)"
    and "missing = filter (\<lambda>f. map_of kvs f = None) required_fields"
    and "missing \<noteq> []"
  shows "create_new_product E now d req
           = (error_response (''Missing fields: '' @ join '', '' missing) 400, d)
     \<and> (\<forall>f \<in> set required_fields. map_of kvs f = None \<longrightarrow>
            sublist f (''Missing fields: '' @ join '', '' missing))"
proof -
  have "create_new_product E now d req
           = (error_response (''Missing fields: '' @ join '', '' missing) 400, d)"
    using create_try_missing[OF assms(1,2)] assms(3,4)
    by (simp add: create_new_product_def)
  moreover have "sublist f (''Missing fields: '' @ join '', '' missing)"
    if "f \<in> set required_fields" "map_of kvs f = None" for f
  proof -
    from that have "f \<in> set missing" by (simp add: assms(3))
    then have "sublist f (join '', '' missing)" by (rule sublist_join)
    then show ?thesis by (rule sublist_prepend)
  qed
  ultimately show ?thesis by blast
qed


theorem create_missing_fields_witness:
  "is_json (json_request (JDict [(''name'', JStr ''Bolt''), (''quantity'', JInt 4)]))
   \<and> get_json (json_request (JDict [(''name'', JStr ''Bolt''), (''quantity'', JInt 4)]))
       = Inr (JDict [(''name'', JStr ''Bolt''), (''quantity'', JInt 4)])
   \<and> length (filter (\<lambda>f. map_of [(''name'', JStr ''Bolt''), (''quantity'', JInt 4)] f = None)
         required_fields) = 4
   \<and> create_new_product example_env 200 example_db
         (json_request (JDict [(''name'', JStr ''Bolt''), (''quantity'', JInt 4)]))
       = (error_response
            ''Missing fields: product_index, buying_price, selling_price, alert_config'' 400,
          example_db)
   \<and> sublist ''selling_price''
         ''Missing fields: product_index, buying_price, selling_price, alert_config''"
proof -
  let ?kvs = "[(''name'', JStr ''Bolt''), (''quantity'', JInt 4)]"
  let ?req = "json_request (JDict ?kvs)"
  have h1: "is_json ?req" and h2: "get_json ?req = Inr (JDict ?kvs)"
    by (simp_all add: json_request_def)
  have h3: "[''product_index'', ''buying_price'', ''selling_price'', ''alert_config'']
      = filter (\<lambda>f. map_of ?kvs f = None) required_fields"
    by (simp add: required_fields_def)
  have h4: "[''product_index'', ''buying_price'', ''selling_price'', ''alert_config''] \<noteq> []"
    by simp
  have h5: "''selling_price'' \<in> set required_fields" "map_of ?kvs ''selling_price'' = None"
    by (simp_all add: required_fields_def)
  from create_missing_fields [OF h1 h2 h3 h4, of example_env 200 example_db] h5
  have "create_new_product example_env 200 example_db ?req
       = (error_response
            ''Missing fields: product_index, buying_price, selling_price, alert_config'' 400,
          example_db)
     \<and> sublist ''selling_price''
          ''Missing fields: product_index, buying_price, selling_price, alert_config''"
    by fastforce
  moreover have "length (filter (\<lambda>f. map_of ?kvs f = None) required_fields) = 4"
    unfolding h3 [symmetric] by simp
  ultimately show ?thesis using h1 h2 by blast
qed

text \<open>
  Claim C4, as amended. A create request whose \<open>product_index\<close> is that of a stored
  product never changes the store. It is answered with the conflict "Product index already
  exists" (status 400) when it also contains all the required fields and its
  \<open>alert_config\<close> encodes; a request with fields missing is answered with the
  missing-fields error, which is checked first.
\<close>

theorem create_duplicate_index:
  assumes "is_json req" and "get_json req = Inr (JDict kvs)"
    and "map_of kvs ''product_index'' = Some idx"
    and "idx \<in> product_index ` set (rows d)"
  shows "snd (create_new_product E now d req) = d
     \<and> ((\<forall>f \<in> set required_fields. map_of kvs f \<noteq> None)
          \<and> (\<exists>v s. map_of kvs ''alert_config'' = Some v \<and> json_dumps E v = Inr s)
        \<longrightarrow> fst (create_new_product E now d req)
              = error_response ''Product index already exists'' 400)"
proof -
  have dup: "filter_by_product_index d idx \<noteq> None"
    using assms(4) by (auto simp: filter_by_product_index_def find_None_iff)
  have "snd (create_new_product E now d req) = d"
  proof (rule ccontr)
    assume "snd (create_new_product E now d req) \<noteq> d"
    from create_store_changes[OF this] assms(2,3) dup show False by auto
  qed
  moreover have "fst (create_new_product E now d req)
              = error_response ''Product index already exists'' 400"
    if all: "\<forall>f \<in> set required_fields. map_of kvs f \<noteq> None"
      and enc: "map_of kvs ''alert_config'' = Some v" "json_dumps E v = Inr s" for v s
  proof -
    have "filter (\<lambda>f. map_of kvs f = None) required_fields = []"
      using all by (simp add: filter_empty_conv)
    then show ?thesis
      using assms(1-3) dup enc
      by (simp add: create_new_product_def create_try_def fbind_def lift_def ebind_def
            missing_fields_dict except_TypeError_ValueError_def)
  qed
  ultimately show ?thesis by blast
qed

theorem create_duplicate_index_witness:
  "JStr ''P-1'' \<in> product_index ` set (rows example_db)
   \<and> create_new_product example_env 200 example_db
        (json_request (JDict
           [(''product_index'', JStr ''P-1''),
            (''name'', JStr ''Bolt''),
            (''buying_price'', JFloat (Finite (5 / 2))),
            (''selling_price'', JInt 3),
            (''quantity'', JStr ''4''),
            (''alert_config'', JDict [(''low_stock'', JInt 5), (''in_stock'', JInt 20)])]))
      = (error_response ''Product index already exists'' 400, example_db)"
proof -
  let ?kvs = "[(''product_index'', JStr ''P-1''),
            (''name'', JStr ''Bolt''),
            (''buying_price'', JFloat (Finite (5 / 2))),
            (''selling_price'', JInt 3),
            (''quantity'', JStr ''4''),
            (''alert_config'', JDict [(''low_stock'', JInt 5), (''in_stock'', JInt 20)])]"
  let ?req = "json_request (JDict ?kvs)"
  have h1: "is_json ?req" and h2: "get_json ?req = Inr (JDict ?kvs)"
    by (simp_all add: json_request_def)
  have h3: "map_of ?kvs ''product_index'' = Some (JStr ''P-1'')" by simp
  have h4: "JStr ''P-1'' \<in> product_index ` set (rows example_db)"
    by (simp add: example_db_def example_product_def)
  have h5: "\<forall>f \<in> set required_fields. map_of ?kvs f \<noteq> None"
    by (simp add: required_fields_def)
  have h6: "map_of ?kvs ''alert_config''
        = Some (JDict [(''low_stock'', JInt 5), (''in_stock'', JInt 20)])"
    by simp
  have h7: "json_dumps example_env (JDict [(''low_stock'', JInt 5), (''in_stock'', JInt 20)])
        = Inr ''{\"low_stock\": 5, \"in_stock\": 20}''"
    by (simp add: example_env_def example_dumps_def)
  from create_duplicate_index [OF h1 h2 h3 h4, of example_env 200] h5 h6 h7
  have "snd (create_new_product example_env 200 example_db ?req) = example_db"
    and "fst (create_new_product example_env 200 example_db ?req)
           = error_response ''Product index already exists'' 400"
    by blast+
  then have "create_new_product example_env 200 example_db ?req
      = (error_response ''Product index already exists'' 400, example_db)"
    by (simp add: prod_eq_iff)
  with h4 show ?thesis by blast
qed

text \<open>
  Claim C4 as stated fails: the request below carries the \<open>product_index\<close> of the stored
  product and nothing else, and the answer is the missing-fields error, not the conflict.
\<close>

theorem create_duplicate_index_counterexample:
  "JStr ''P-1'' \<in> product_index ` set (rows example_db)
   \<and> create_new_product example_env 200 example_db
        (json_request (JDict [(''product_index'', JStr ''P-1'')]))
      = (error_response
           ''Missing fields: name, buying_price, selling_price, quantity, alert_config'' 400,
         example_db)
   \<and> error_response
         ''Missing fields: name, buying_price, selling_price, quantity, alert_config'' 400
      \<noteq> error_response ''Product index already exists'' 400"
  by (simp add: create_defs missing_fields_dict example_defs)

text \<open>
  Claim C6 fails on the code at a price that is \<open>null\<close>: \<open>float(None)\<close> raises
  \<open>TypeError\<close>, which \<open>except ValueError\<close> does not catch, so the request is answered
  by the last handler with status 500, not 400.
\<close>

theorem create_null_price_status_500:
  "py_float example_env JNull = Inl TypeError
   \<and> create_new_product example_env 200 example_db
        (json_request (JDict
           [(''product_index'', JStr ''P-2''),
            (''name'', JStr ''Bolt''),
            (''buying_price'', JNull),
            (''selling_price'', JInt 3),
            (''quantity'', JStr ''4''),
            (''alert_config'', JDict [(''low_stock'', JInt 5), (''in_stock'', JInt 20)])]))
      = (error_response (''Unexpected error: '' @ exc_str example_env TypeError) 500,
         example_db)"
  by (simp add: create_defs missing_fields_dict example_defs)

text \<open>
  Claim C10. When a create request succeeds (status 201), one row is appended to the
  store, and each of \<open>description\<close>, \<open>supplier_name\<close> and \<open>category\<close> that the request
  omits is the empty string in that row.
\<close>

theorem create_optional_defaults:
  assumes "create_new_product E now d req = (resp, d')" and "snd resp = 201"
  shows "\<exists>kvs row. get_json req = Inr (JDict kvs) \<and> rows d' = rows d @ [row]
     \<and> (map_of kvs ''description'' = None \<longrightarrow> description row = JStr [])
     \<and> (map_of kvs ''supplier_name'' = None \<longrightarrow> supplier_name row = JStr [])
     \<and> (map_of kvs ''category'' = None \<longrightarrow> category row = JStr [])"
proof -
  from create_success[OF assms] obtain data config row where
    a: "get_json req = Inr data"
    and b: "new_product E data config (next_id d) now = Inr row"
    and c: "d' = d\<lparr>rows := rows d @ [row], next_id := Suc (next_id d)\<rparr>"
    by blast
  from new_product_fields[OF b] obtain kvs where "data = JDict kvs"
    and "description row = (case map_of kvs ''description'' of None \<Rightarrow> JStr [] | Some v \<Rightarrow> v)"
    and "supplier_name row = (case map_of kvs ''supplier_name'' of None \<Rightarrow> JStr [] | Some v \<Rightarrow> v)"
    and "category row = (case map_of kvs ''category'' of None \<Rightarrow> JStr [] | Some v \<Rightarrow> v)"
    by blast
  with a c show ?thesis by auto
qed

theorem create_optional_defaults_witness:
  "snd (fst (create_new_product example_env 200 example_db (json_request (JDict example_body))))
     = 201
   \<and> map_of example_body ''description'' = None
   \<and> map_of example_body ''supplier_name'' = None
   \<and> map_of example_body ''category'' = None
   \<and> description (last (rows (snd (create_new_product example_env 200 example_db
         (json_request (JDict example_body)))))) = JStr []
   \<and> supplier_name (last (rows (snd (create_new_product example_env 200 example_db
         (json_request (JDict example_body)))))) = JStr []
   \<and> category (last (rows (snd (create_new_product example_env 200 example_db
         (json_request (JDict example_body)))))) = JStr []"
proof -
  let ?req = "json_request (JDict example_body)"
  obtain resp d' where r: "create_new_product example_env 200 example_db ?req = (resp, d')"
    by (cases "create_new_product example_env 200 example_db ?req")
  have st: "snd resp = 201"
    using r by (auto simp: create_defs missing_fields_dict example_defs int_to_float_def
        bitlen_def floorlog_le_iff)
  have none: "map_of example_body ''description'' = None"
    "map_of example_body ''supplier_name'' = None" "map_of example_body ''category'' = None"
    by (simp_all add: example_body_def)
  from create_optional_defaults [OF r st] obtain kvs row where
    k: "get_json ?req = Inr (JDict kvs)" and rows: "rows d' = rows example_db @ [row]"
    and f: "(map_of kvs ''description'' = None \<longrightarrow> description row = JStr [])
       \<and> (map_of kvs ''supplier_name'' = None \<longrightarrow> supplier_name row = JStr [])
       \<and> (map_of kvs ''category'' = None \<longrightarrow> category row = JStr [])"
    by auto
  from k have "kvs = example_body" by (simp add: json_request_def)
  with none f
  have "description row = JStr []" "supplier_name row = JStr []" "category row = JStr []"
    by simp_all
  with rows st none r show ?thesis by simp
qed

section \<open>Updating a product: properties\<close>

lemmas update_defs = update_product_def update_try_def fbind_def lift_def ebind_def
  assign_fields_def set_name_def set_buying_price_def set_selling_price_def
  set_quantity_def set_alert_config_def set_description_def set_supplier_name_def
  set_category_def if_in_def except_ValueError_def except_TypeError_ValueError_def
  commit_update_def net_change_def assigned_def query_get_def update_success_def Let_def

lemma fbind_Next: "fbind m f = Next y \<Longrightarrow> \<exists>x. m = Next x \<and> f x = Next y"
  by (cases m) (simp_all add: fbind_def)

lemma if_in_Next:
  "if_in key data assign p = Next p' \<Longrightarrow> p' = p \<or> (\<exists>item. assign item = Next p')"
  by (auto simp: if_in_def fbind_def lift_def split: sum.splits if_splits)

lemma lift_step_Next:
  "fbind (lift item) (\<lambda>v. Next (upd v)) = Next p' \<Longrightarrow> \<exists>v. p' = upd v"
  by (auto simp: fbind_def lift_def split: sum.splits)

lemma except_ValueError_step_Next:
  "fbind (except_ValueError msg m) (\<lambda>x. Next (upd x)) = Next p' \<Longrightarrow> \<exists>x. p' = upd x"
  by (auto simp: fbind_def except_ValueError_def split: sum.splits if_splits)

lemma except_TypeError_ValueError_step_Next:
  "fbind (except_TypeError_ValueError msg m) (\<lambda>x. Next (upd x)) = Next p' \<Longrightarrow> \<exists>x. p' = upd x"
  by (auto simp: fbind_def except_TypeError_ValueError_def split: sum.splits if_splits)

lemma fbind_NextE:
  assumes "fbind m f = Next y"
  obtains x where "m = Next x" and "f x = Next y"
proof (cases m)
  case (Next x)
  with assms have "f x = Next y" by (simp add: fbind_def)
  with Next show thesis by (rule that)
next
  case (Return r)
  with assms show thesis by (simp add: fbind_def)
next
  case (Raise e)
  with assms show thesis by (simp add: fbind_def)
qed

lemma set_name_same_key: "set_name data p = Next p' \<Longrightarrow> same_key p p'"
  unfolding set_name_def
  by (drule if_in_Next) (auto simp: same_key_def dest!: lift_step_Next)

lemma set_buying_price_same_key: "set_buying_price E data p = Next p' \<Longrightarrow> same_key p p'"
  unfolding set_buying_price_def
  by (drule if_in_Next) (auto simp: same_key_def dest!: except_ValueError_step_Next)

lemma set_selling_price_same_key: "set_selling_price E data p = Next p' \<Longrightarrow> same_key p p'"
  unfolding set_selling_price_def
  by (drule if_in_Next) (auto simp: same_key_def dest!: except_ValueError_step_Next)

lemma set_quantity_same_key: "set_quantity E data p = Next p' \<Longrightarrow> same_key p p'"
  unfolding set_quantity_def
  by (drule if_in_Next) (auto simp: same_key_def dest!: except_ValueError_step_Next)

lemma set_alert_config_same_key: "set_alert_config E data p = Next p' \<Longrightarrow> same_key p p'"
  unfolding set_alert_config_def
  by (drule if_in_Next) (auto simp: same_key_def dest!: except_TypeError_ValueError_step_Next)

lemma set_description_same_key: "set_description data p = Next p' \<Longrightarrow> same_key p p'"
  unfolding set_description_def
  by (drule if_in_Next) (auto simp: same_key_def dest!: lift_step_Next)

lemma set_supplier_name_same_key: "set_supplier_name data p = Next p' \<Longrightarrow> same_key p p'"
  unfolding set_supplier_name_def
  by (drule if_in_Next) (auto simp: same_key_def dest!: lift_step_Next)

lemma set_category_same_key: "set_category data p = Next p' \<Longrightarrow> same_key p p'"
  unfolding set_category_def
  by (drule if_in_Next) (auto simp: same_key_def dest!: lift_step_Next)

lemma assign_fields_same_key:
  assumes "assign_fields E data p = Next p'"
  shows "same_key p p'"
proof -
  from assms obtain p1 p2 p3 p4 p5 p6 p7 where
    "set_name data p = Next p1" "set_buying_price E data p1 = Next p2"
    "set_selling_price E data p2 = Next p3" "set_quantity E data p3 = Next p4"
    "set_alert_config E data p4 = Next p5" "set_description data p5 = Next p6"
    "set_supplier_name data p6 = Next p7" "set_category data p7 = Next p'"
    unfolding assign_fields_def by (elim fbind_NextE) blast
  then have "same_key p p1" "same_key p1 p2" "same_key p2 p3" "same_key p3 p4"
    "same_key p4 p5" "same_key p5 p6" "same_key p6 p7" "same_key p7 p'"
    by (simp_all add: set_name_same_key set_buying_price_same_key set_selling_price_same_key
          set_quantity_same_key set_alert_config_same_key set_description_same_key
          set_supplier_name_same_key set_category_same_key)
  then show ?thesis
    by (simp add: same_key_def)
qed

lemma map_id_replace_row: "map id' (replace_row row rs) = map id' rs"
  by (induction rs) simp_all

lemma map_index_replace_row:
  assumes "find (\<lambda>p. id' p = k) rs = Some old" and "id' row = k"
    and "product_index row = product_index old"
  shows "map product_index (replace_row row rs) = map product_index rs"
  using assms by (induction rs) (auto split: if_splits)

lemma commit_update_keys:
  assumes "commit_update E now d data old new = Inr (row, d')"
    and "query_get d k = Some old" and "same_key old new"
  shows "map id' (rows d') = map id' (rows d)
       \<and> map product_index (rows d') = map product_index (rows d)"
proof (cases "d' = d")
  case True
  then show ?thesis by simp
next
  case False
  with assms(1) have d': "d' = d\<lparr>rows := replace_row (new\<lparr>last_updated := now\<rparr>) (rows d)\<rparr>"
    by (auto simp: commit_update_def Let_def split: if_splits)
  have k: "id' old = k"
    using assms(2) by (auto simp: query_get_def dest: find_Some_iff[THEN iffD1])
  show ?thesis
    using assms(2,3) k
    by (simp add: d' map_id_replace_row query_get_def same_key_def
          map_index_replace_row[where old = old and k = k])
qed

lemma lift_Next: "lift m = Next x \<Longrightarrow> m = Inr x"
  by (cases m) (simp_all add: lift_def)

lemma update_try_Next:
  assumes "update_try E now d req k = Next (resp, d')"
  obtains old data new row where "is_json req" "get_json req = Inr data"
    "query_get d k = Some old" "assign_fields E data old = Next new"
    "commit_update E now d data old new = Inr (row, d')"
    "resp = update_success E row"
proof -
  from assms have j: "is_json req"
    by (auto simp: update_try_def split: if_splits)
  with assms obtain old where q: "query_get d k = Some old"
    by (cases "query_get d k") (auto simp: update_try_def)
  from assms j q have
    "fbind (lift (get_json req)) (\<lambda>data.
       fbind (assign_fields E data old) (\<lambda>changed.
       fbind (lift (commit_update E now d data old changed)) (\<lambda>(row, d').
         Next (update_success E row, d')))) = Next (resp, d')"
    by (simp add: update_try_def)
  then obtain data new c where a: "lift (get_json req) = Next data"
    and b: "assign_fields E data old = Next new"
    and c: "lift (commit_update E now d data old new) = Next c"
    and r: "(case c of (row, d') \<Rightarrow> Next (update_success E row, d')) = Next (resp, d')"
    by (elim fbind_NextE) blast
  obtain row d2 where c2: "c = (row, d2)" by (cases c)
  with r have "d2 = d'" and "resp = update_success E row"
    by simp_all
  with that[OF j lift_Next[OF a] q b] lift_Next[OF c] c2 show thesis by simp
qed

lemma if_in_dict:
  "if_in key (JDict kvs) assign p =
     (case map_of kvs key of None \<Rightarrow> Next p | Some v \<Rightarrow> assign (Inr v))"
  by (cases "map_of kvs key") (simp_all add: if_in_def fbind_def lift_def)

lemma assign_fields_quantity_only:
  assumes "map_of kvs ''quantity'' = Some v"
    and "\<forall>k. k \<noteq> ''quantity'' \<longrightarrow> map_of kvs k = None"
    and "py_int E v = Inr n"
  shows "assign_fields E (JDict kvs) p = Next (p\<lparr>quantity := n\<rparr>)"
proof -
  have none: "map_of kvs ''name'' = None" "map_of kvs ''buying_price'' = None"
    "map_of kvs ''selling_price'' = None" "map_of kvs ''alert_config'' = None"
    "map_of kvs ''description'' = None" "map_of kvs ''supplier_name'' = None"
    "map_of kvs ''category'' = None"
    using assms(2) by simp_all
  have "set_name (JDict kvs) p = Next p" "set_buying_price E (JDict kvs) p = Next p"
    "set_selling_price E (JDict kvs) p = Next p"
    by (simp_all add: set_name_def set_buying_price_def set_selling_price_def if_in_dict none)
  moreover have "set_quantity E (JDict kvs) p = Next (p\<lparr>quantity := n\<rparr>)"
    using assms(1,3)
    by (simp add: set_quantity_def if_in_dict ebind_def except_ValueError_def fbind_def)
  moreover have "set_alert_config E (JDict kvs) q = Next q"
    "set_description (JDict kvs) q = Next q" "set_supplier_name (JDict kvs) q = Next q"
    "set_category (JDict kvs) q = Next q" for q
    by (simp_all add: set_alert_config_def set_description_def set_supplier_name_def
          set_category_def if_in_dict none)
  ultimately show ?thesis
    by (simp add: assign_fields_def fbind_def)
qed

lemma net_change_quantity_only:
  assumes "map_of kvs ''buying_price'' = None" and "map_of kvs ''selling_price'' = None"
  shows "net_change (JDict kvs) old (old\<lparr>quantity := n\<rparr>) \<longleftrightarrow> n \<noteq> quantity old"
  using assms by (simp add: net_change_def assigned_def)

text \<open>
  Claim C3, as amended. An update of an existing product whose body holds only the key
  \<open>quantity\<close>, with a value that \<open>int\<close> converts, succeeds with status 200 whenever the
  backend accepts the row. When the new quantity differs from the stored one, the row gets
  the new quantity and \<open>last_updated\<close> becomes the current time, every other column and
  every other row staying as it was. When the new quantity equals the stored one, nothing
  is written and \<open>last_updated\<close> keeps its old value.
\<close>

theorem update_quantity_only:
  assumes "is_json req" and "get_json req = Inr (JDict kvs)"
    and "map_of kvs ''quantity'' = Some v"
    and "\<forall>k. k \<noteq> ''quantity'' \<longrightarrow> map_of kvs k = None"
    and "py_int E v = Inr n"
    and "query_get d product_id = Some old"
    and "db_accepts E (old\<lparr>quantity := n, last_updated := now\<rparr>)"
  shows "update_product E now d req product_id =
     (if n = quantity old then (update_success E old, d)
      else (update_success E (old\<lparr>quantity := n, last_updated := now\<rparr>),
            d\<lparr>rows := replace_row (old\<lparr>quantity := n, last_updated := now\<rparr>) (rows d)\<rparr>))"
proof -
  have a: "assign_fields E (JDict kvs) old = Next (old\<lparr>quantity := n\<rparr>)"
    by (rule assign_fields_quantity_only[OF assms(3,4,5)])
  have nc: "net_change (JDict kvs) old (old\<lparr>quantity := n\<rparr>) \<longleftrightarrow> n \<noteq> quantity old"
    using assms(4) by (simp add: net_change_quantity_only)
  have c: "commit_update E now d (JDict kvs) old (old\<lparr>quantity := n\<rparr>) =
     (if n = quantity old then Inr (old, d)
      else Inr (old\<lparr>quantity := n, last_updated := now\<rparr>,
            d\<lparr>rows := replace_row (old\<lparr>quantity := n, last_updated := now\<rparr>) (rows d)\<rparr>))"
    using assms(7) by (simp add: commit_update_def nc Let_def)
  have "update_try E now d req product_id =
     (if n = quantity old then Next (update_success E old, d)
      else Next (update_success E (old\<lparr>quantity := n, last_updated := now\<rparr>),
            d\<lparr>rows := replace_row (old\<lparr>quantity := n, last_updated := now\<rparr>) (rows d)\<rparr>))"
    using assms(1,2,6)
    by (simp add: update_try_def fbind_def lift_def a c update_success_def)
  then show ?thesis
    by (simp add: update_product_def)
qed


theorem update_quantity_only_witness:
  "is_json (json_request (JDict [(''quantity'', JStr ''4'')]))
   \<and> get_json (json_request (JDict [(''quantity'', JStr ''4'')]))
       = Inr (JDict [(''quantity'', JStr ''4'')])
   \<and> py_int example_env (JStr ''4'') = Inr 4
   \<and> query_get example_db 1 = Some example_product
   \<and> update_product example_env 200 example_db
         (json_request (JDict [(''quantity'', JStr ''4'')])) 1
       = (update_success example_env (example_product\<lparr>quantity := 4, last_updated := 200\<rparr>),
          \<lparr>rows = [example_product\<lparr>quantity := 4, last_updated := 200\<rparr>], next_id = 2\<rparr>)"
proof -
  let ?kvs = "[(''quantity'', JStr ''4'')]"
  let ?req = "json_request (JDict ?kvs)"
  have h1: "is_json ?req" and h2: "get_json ?req = Inr (JDict ?kvs)"
    by (simp_all add: json_request_def)
  have h3: "map_of ?kvs ''quantity'' = Some (JStr ''4'')" by simp
  have h4: "\<forall>k. k \<noteq> ''quantity'' \<longrightarrow> map_of ?kvs k = None" by simp
  have h5: "py_int example_env (JStr ''4'') = Inr 4"
    by (simp add: example_env_def example_int_def)
  have h6: "query_get example_db 1 = Some example_product"
    by (simp add: query_get_def example_db_def example_product_def)
  have h7: "db_accepts example_env (example_product\<lparr>quantity := 4, last_updated := 200\<rparr>)"
    by (simp add: example_env_def)
  have "update_product example_env 200 example_db ?req 1
       = (update_success example_env (example_product\<lparr>quantity := 4, last_updated := 200\<rparr>),
          \<lparr>rows = [example_product\<lparr>quantity := 4, last_updated := 200\<rparr>], next_id = 2\<rparr>)"
    using update_quantity_only [OF h1 h2 h3 h4 h5 h6 h7]
    by (simp add: example_db_def example_product_def)
  with h1 h2 h5 h6 show ?thesis by blast
qed

text \<open>
  Claim C3 as stated fails: the stored quantity is 7 and the request sets it to 7 at time
  200. The update succeeds, and \<open>last_updated\<close> is still 100.
\<close>

theorem update_same_quantity_counterexample:
  "update_product example_env 200 example_db
      (json_request (JDict [(''quantity'', JInt 7)])) 1
     = (update_success example_env example_product, example_db)
   \<and> snd (update_success example_env example_product) = 200
   \<and> map last_updated (rows example_db) = [100]
   \<and> (100 :: datetime) \<noteq> 200"
  by (simp add: update_defs example_defs)

text \<open>
  Claim C9. Whatever the request, \<open>update_product\<close> leaves the primary keys and the
  \<open>product_index\<close> column of the table as they were, also when the body has the keys
  \<open>id\<close> and \<open>product_index\<close>; so the \<open>product_index\<close> values stay pairwise distinct
  if they were.
\<close>

theorem update_keeps_keys:
  "map id' (rows (snd (update_product E now d req product_id))) = map id' (rows d)
   \<and> map product_index (rows (snd (update_product E now d req product_id)))
       = map product_index (rows d)
   \<and> (distinct (map product_index (rows d)) \<longrightarrow>
        distinct (map product_index (rows (snd (update_product E now d req product_id)))))"
proof -
  have "map id' (rows (snd (update_product E now d req product_id))) = map id' (rows d)
   \<and> map product_index (rows (snd (update_product E now d req product_id)))
       = map product_index (rows d)"
  proof (cases "update_try E now d req product_id")
    case (Next a)
    obtain resp d' where a: "a = (resp, d')" by (cases a)
    from Next a have "update_try E now d req product_id = Next (resp, d')" by simp
    then obtain old data new row where
      q: "query_get d product_id = Some old" and f: "assign_fields E data old = Next new"
      and c: "commit_update E now d data old new = Inr (row, d')"
      by (rule update_try_Next)
    have "map id' (rows d') = map id' (rows d)
       \<and> map product_index (rows d') = map product_index (rows d)"
      by (rule commit_update_keys[OF c q assign_fields_same_key[OF f]])
    then show ?thesis using Next a by (simp add: update_product_def)
  next
    case (Return r)
    then show ?thesis by (simp add: update_product_def)
  next
    case (Raise e)
    then show ?thesis by (simp add: update_product_def)
  qed
  then show ?thesis by simp
qed


theorem update_keeps_keys_witness:
  "distinct (map product_index (rows example_db))
   \<and> map id' (rows (snd (update_product example_env 200 example_db
         (json_request (JDict [(''id'', JInt 99), (''product_index'', JStr ''X''),
                               (''name'', JStr ''Gadget'')])) 1))) = [1]
   \<and> map product_index (rows (snd (update_product example_env 200 example_db
         (json_request (JDict [(''id'', JInt 99), (''product_index'', JStr ''X''),
                               (''name'', JStr ''Gadget'')])) 1))) = [JStr ''P-1'']
   \<and> distinct (map product_index (rows (snd (update_product example_env 200 example_db
         (json_request (JDict [(''id'', JInt 99), (''product_index'', JStr ''X''),
                               (''name'', JStr ''Gadget'')])) 1))))
   \<and> map name (rows (snd (update_product example_env 200 example_db
         (json_request (JDict [(''id'', JInt 99), (''product_index'', JStr ''X''),
                               (''name'', JStr ''Gadget'')])) 1))) = [JStr ''Gadget'']"
proof -
  let ?req = "json_request (JDict [(''id'', JInt 99), (''product_index'', JStr ''X''),
                               (''name'', JStr ''Gadget'')])"
  have "map name (rows (snd (update_product example_env 200 example_db ?req 1)))
      = [JStr ''Gadget'']"
    by (simp add: update_defs example_defs)
  with update_keeps_keys [of example_env 200 example_db ?req 1]
  show ?thesis
    by (simp add: example_db_def example_product_def)
qed

section \<open>Listing: properties\<close>

lemma ceiling_div:
  fixes n p :: int
  assumes "0 < p"
  shows "\<lceil>(of_int n :: rat) / of_int p\<rceil> = (n + p - 1) div p"
proof (rule ceiling_unique)
  define z where "z = (n + p - 1) div p"
  have m: "p * z + (n + p - 1) mod p = n + p - 1"
    unfolding z_def by (rule mult_div_mod_eq)
  have b: "0 \<le> (n + p - 1) mod p" "(n + p - 1) mod p < p"
    using assms by simp_all
  from m b have "p * z - p < n" and "n \<le> p * z"
    by linarith+
  then have lo: "(z - 1) * p < n" and hi: "n \<le> z * p"
    by (simp_all add: algebra_simps)
  have "of_int ((z - 1) * p) < (of_int n :: rat)" using lo by (simp only: of_int_less_iff)
  then show "of_int ((n + p - 1) div p) - 1 < (of_int n :: rat) / of_int p"
    using assms by (simp add: pos_less_divide_eq z_def)
  have "(of_int n :: rat) \<le> of_int (z * p)" using hi by (simp only: of_int_le_iff)
  then show "(of_int n :: rat) / of_int p \<le> of_int ((n + p - 1) div p)"
    using assms by (simp add: pos_divide_le_eq z_def)
qed

lemma paginate_answered:
  assumes "used_page = (if page < 1 then 1 else page)"
    and "used_per_page = (if per_page < 1 then 20 else per_page)"
    and "db_lists E ((used_page - 1) * used_per_page) used_per_page"
  shows "paginate E xs page per_page =
     Inr \<lparr>items = page_of_rows xs used_page used_per_page,
          total = int (length xs),
          pages = (int (length xs) + used_per_page - 1) div used_per_page,
          has_next = (used_page < (int (length xs) + used_per_page - 1) div used_per_page),
          has_prev = (1 < used_page)\<rparr>"
proof -
  have pp: "0 < used_per_page" using assms(2) by simp
  have c: "(if int (length xs) = 0 then 0
            else \<lceil>(of_int (int (length xs)) :: rat) / of_int used_per_page\<rceil>)
          = (int (length xs) + used_per_page - 1) div used_per_page"
    using pp ceiling_div[of used_per_page "int (length xs)"]
    by (simp add: div_pos_pos_trivial)
  have "paginate E xs page per_page =
     Inr \<lparr>items = page_of_rows xs used_page used_per_page,
          total = int (length xs),
          pages = (if int (length xs) = 0 then 0
            else \<lceil>(of_int (int (length xs)) :: rat) / of_int used_per_page\<rceil>),
          has_next = (used_page < (if int (length xs) = 0 then 0
            else \<lceil>(of_int (int (length xs)) :: rat) / of_int used_per_page\<rceil>)),
          has_prev = (1 < used_page)\<rparr>"
    using assms(3) unfolding assms(1,2) paginate_def Let_def page_of_rows_def by simp
  then show ?thesis by (simp only: c)
qed

lemma paginate_refused:
  assumes "used_page = (if page < 1 then 1 else page)"
    and "used_per_page = (if per_page < 1 then 20 else per_page)"
    and "\<not> db_lists E ((used_page - 1) * used_per_page) used_per_page"
  shows "paginate E xs page per_page = Inl SQLAlchemyError"
  using assms(3) unfolding assms(1,2) paginate_def Let_def by simp

lemma length_page_of_rows:
  assumes "1 \<le> page" and "1 \<le> per_page"
  shows "int (length (page_of_rows xs page per_page))
       = min per_page (max 0 (int (length xs) - (page - 1) * per_page))"
proof -
  define k where "k = (page - 1) * per_page"
  have "0 \<le> k" using assms by (simp add: k_def)
  then have "int (min (length xs - nat k) (nat per_page))
       = min per_page (max 0 (int (length xs) - k))"
    using assms(2) by arith
  then show ?thesis
    by (simp add: page_of_rows_def k_def)
qed

lemma args_get_int_arg:
  "args_get_int E (args req) k dflt = (case int_arg E req k of None \<Rightarrow> dflt | Some n \<Rightarrow> n)"
  by (simp add: args_get_int_def int_arg_def split: option.splits)


lemma get_all_products_answered:
  assumes "page = args_get_int E (args req) ''page'' 1"
    and "per_page = args_get_int E (args req) ''per_page'' 25"
    and "used_page = (if page < 1 then 1 else page)"
    and "used_per_page = (if per_page < 1 then 20 else per_page)"
    and "db_lists E ((used_page - 1) * used_per_page) used_per_page"
    and "n = int (length (rows d))"
  shows "get_all_products E d req =
     (JDict
        [(''status'', JStr ''success''),
         (''data'', JList (map (to_dict E) (page_of_rows (rows d) used_page used_per_page))),
         (''pagination'', JDict
            [(''total'', JInt n),
             (''pages'', JInt ((n + used_per_page - 1) div used_per_page)),
             (''current_page'', JInt page),
             (''per_page'', JInt per_page),
             (''has_next'', JBool (used_page < (n + used_per_page - 1) div used_per_page)),
             (''has_prev'', JBool (1 < used_page))])], 200)"
  using paginate_answered[OF assms(3,4,5), of "rows d"] assms(1,2,6)
  by (simp add: get_all_products_def Let_def)

lemma get_all_products_refused:
  assumes "page = args_get_int E (args req) ''page'' 1"
    and "per_page = args_get_int E (args req) ''per_page'' 25"
    and "used_page = (if page < 1 then 1 else page)"
    and "used_per_page = (if per_page < 1 then 20 else per_page)"
    and "\<not> db_lists E ((used_page - 1) * used_per_page) used_per_page"
  shows "get_all_products E d req =
     error_response (''Failed to fetch products: '' @ exc_str E SQLAlchemyError) 500"
  using paginate_refused[OF assms(3,4,5), of "rows d"] assms(1,2)
  by (simp add: get_all_products_def Let_def)

lemmas response_fields = pagination_field_def json_field_def data_length_def


text \<open>
  Claim C8, as amended. For a list request whose page and page size are at least 1 and whose
  query the storage backend answers, \<open>total\<close> is the number of stored records and
  \<open>pages\<close> is the ceiling of \<open>total / per_page\<close>; the page holds the records left
  after the earlier pages, at most \<open>per_page\<close> of them; \<open>has_next\<close> says that records
  remain after the page and \<open>has_prev\<close> that the page is not the first. An empty store
  gives \<open>total = 0\<close>, \<open>pages = 0\<close> and no data. With 60 records and
  \<open>per_page = 25\<close>, page 1 has 25 items, 3 pages, a next page and no previous one, and
  page 3 has 10 items and no next page.
\<close>

theorem list_pagination_metadata:
  assumes "R = get_all_products E d req"
    and "page = args_get_int E (args req) ''page'' 1"
    and "per_page = args_get_int E (args req) ''per_page'' 25"
    and "1 \<le> page" and "1 \<le> per_page"
    and "n = int (length (rows d))"
    and "db_lists E ((page - 1) * per_page) per_page"
  shows "pagination_field ''total'' R = Some (JInt n)
     \<and> pagination_field ''pages'' R = Some (JInt \<lceil>(of_int n :: rat) / of_int per_page\<rceil>)
     \<and> \<lceil>(of_int n :: rat) / of_int per_page\<rceil> = (n + per_page - 1) div per_page
     \<and> data_length R = Some (nat (min per_page (max 0 (n - (page - 1) * per_page))))
     \<and> pagination_field ''has_next'' R = Some (JBool (page * per_page < n))
     \<and> pagination_field ''has_prev'' R = Some (JBool (1 < page))
     \<and> (n = 0 \<longrightarrow> pagination_field ''total'' R = Some (JInt 0)
            \<and> pagination_field ''pages'' R = Some (JInt 0) \<and> data_length R = Some 0)
     \<and> (n = 60 \<and> per_page = 25 \<and> page = 1 \<longrightarrow>
            data_length R = Some 25 \<and> pagination_field ''pages'' R = Some (JInt 3)
            \<and> pagination_field ''has_next'' R = Some (JBool True)
            \<and> pagination_field ''has_prev'' R = Some (JBool False))
     \<and> (n = 60 \<and> per_page = 25 \<and> page = 3 \<longrightarrow>
            data_length R = Some 10 \<and> pagination_field ''has_next'' R = Some (JBool False))"
proof -
  have pp: "0 < per_page" using assms(5) by simp
  have nn: "0 \<le> (page - 1) * per_page" using assms(4,5) by simp
  have cd: "\<lceil>(of_int n :: rat) / of_int per_page\<rceil> = (n + per_page - 1) div per_page"
    using pp by (rule ceiling_div)
  have up: "page = (if page < 1 then 1 else page)"
    and upp: "per_page = (if per_page < 1 then 20 else per_page)"
    using assms(4,5) by simp_all
  have R: "R =
     (JDict
        [(''status'', JStr ''success''),
         (''data'', JList (map (to_dict E) (page_of_rows (rows d) page per_page))),
         (''pagination'', JDict
            [(''total'', JInt n),
             (''pages'', JInt ((n + per_page - 1) div per_page)),
             (''current_page'', JInt page),
             (''per_page'', JInt per_page),
             (''has_next'', JBool (page < (n + per_page - 1) div per_page)),
             (''has_prev'', JBool (1 < page))])], 200)"
    unfolding assms(1)
    by (rule get_all_products_answered[OF assms(2,3) up upp assms(7,6)])
  have t: "pagination_field ''total'' R = Some (JInt n)"
    by (simp add: R response_fields)
  have "pagination_field ''pages'' R = Some (JInt ((n + per_page - 1) div per_page))"
    by (simp add: R response_fields)
  then have p: "pagination_field ''pages'' R
      = Some (JInt \<lceil>(of_int n :: rat) / of_int per_page\<rceil>)"
    by (simp only: cd)
  have "int (length (page_of_rows (rows d) page per_page))
      = min per_page (max 0 (n - (page - 1) * per_page))"
    using assms(4,5,6) by (simp add: length_page_of_rows)
  then have "length (page_of_rows (rows d) page per_page)
      = nat (min per_page (max 0 (n - (page - 1) * per_page)))"
    by linarith
  then have l: "data_length R = Some (nat (min per_page (max 0 (n - (page - 1) * per_page))))"
    by (simp add: R response_fields)
  have "page < (n + per_page - 1) div per_page \<longleftrightarrow> page * per_page < n"
  proof -
    have "page < \<lceil>(of_int n :: rat) / of_int per_page\<rceil>
        \<longleftrightarrow> of_int page < (of_int n :: rat) / of_int per_page"
      by (rule less_ceiling_iff)
    also have "\<dots> \<longleftrightarrow> (of_int (page * per_page) :: rat) < of_int n"
      using pp by (simp add: pos_less_divide_eq)
    also have "\<dots> \<longleftrightarrow> page * per_page < n"
      by (simp only: of_int_less_iff)
    finally show ?thesis by (simp add: cd)
  qed
  then have hn: "pagination_field ''has_next'' R = Some (JBool (page * per_page < n))"
    by (simp add: R response_fields)
  have hp: "pagination_field ''has_prev'' R = Some (JBool (1 < page))"
    by (simp add: R response_fields)
  have z: "n = 0 \<longrightarrow> pagination_field ''total'' R = Some (JInt 0)
            \<and> pagination_field ''pages'' R = Some (JInt 0) \<and> data_length R = Some 0"
    using t p l nn by simp
  have c1: "n = 60 \<and> per_page = 25 \<and> page = 1 \<longrightarrow>
            data_length R = Some 25 \<and> pagination_field ''pages'' R = Some (JInt 3)
            \<and> pagination_field ''has_next'' R = Some (JBool True)
            \<and> pagination_field ''has_prev'' R = Some (JBool False)"
    using p l hn hp by (simp add: cd)
  have c3: "n = 60 \<and> per_page = 25 \<and> page = 3 \<longrightarrow>
            data_length R = Some 10 \<and> pagination_field ''has_next'' R = Some (JBool False)"
    using l hn by simp
  from t p cd l hn hp z c1 c3 show ?thesis by blast
qed

theorem list_pagination_metadata_witness:
  "args_get_int example_env (args (get_request [(''page'', ''3''), (''per_page'', ''25'')]))
       ''page'' 1 = 3
   \<and> args_get_int example_env (args (get_request [(''page'', ''3''), (''per_page'', ''25'')]))
       ''per_page'' 25 = 25
   \<and> int (length (rows example_db60)) = 60
   \<and> db_lists example_env ((3 - 1) * 25) 25
   \<and> pagination_field ''total''
         (get_all_products example_env example_db60
            (get_request [(''page'', ''3''), (''per_page'', ''25'')])) = Some (JInt 60)
   \<and> pagination_field ''pages''
         (get_all_products example_env example_db60
            (get_request [(''page'', ''3''), (''per_page'', ''25'')])) = Some (JInt 3)
   \<and> data_length
         (get_all_products example_env example_db60
            (get_request [(''page'', ''3''), (''per_page'', ''25'')])) = Some 10
   \<and> pagination_field ''has_next''
         (get_all_products example_env example_db60
            (get_request [(''page'', ''3''), (''per_page'', ''25'')])) = Some (JBool False)
   \<and> pagination_field ''has_prev''
         (get_all_products example_env example_db60
            (get_request [(''page'', ''3''), (''per_page'', ''25'')])) = Some (JBool True)"
proof -
  let ?req = "get_request [(''page'', ''3''), (''per_page'', ''25'')]"
  have h2: "(3 :: int) = args_get_int example_env (args ?req) ''page'' 1"
    and h3: "(25 :: int) = args_get_int example_env (args ?req) ''per_page'' 25"
    by (simp_all add: args_get_int_def get_request_def example_env_def example_int_def)
  have h4: "1 \<le> (3 :: int)" and h5: "1 \<le> (25 :: int)"
    by simp_all
  have h6: "(60 :: int) = int (length (rows example_db60))"
    by (simp add: example_db60_def)
  have h7: "db_lists example_env ((3 - 1) * 25) 25"
    by (simp add: example_env_def)
  from list_pagination_metadata [OF refl h2 h3 h4 h5 h6 h7]
  show ?thesis
    using h2 h3 h6 h7 by simp
qed

text \<open>
  Claim C8 as stated fails: page \<open>10000000000000000000\<close> is at least 1, but its offset
  does not fit a signed 64-bit integer; the backend refuses the query, the route answers
  500, and the response has no pagination metadata.
\<close>

theorem list_huge_page_counterexample:
  "args_get_int example_env (args (get_request [(''page'', ''10000000000000000000'')]))
       ''page'' 1 = 10000000000000000000
   \<and> args_get_int example_env (args (get_request [(''page'', ''10000000000000000000'')]))
       ''per_page'' 25 = 25
   \<and> (1 :: int) \<le> 10000000000000000000 \<and> (1 :: int) \<le> 25
   \<and> get_all_products example_env example_db60
         (get_request [(''page'', ''10000000000000000000'')])
       = error_response (''Failed to fetch products: '' @ exc_str example_env SQLAlchemyError)
           500
   \<and> pagination_field ''pages''
         (get_all_products example_env example_db60
            (get_request [(''page'', ''10000000000000000000'')])) = None"
proof -
  let ?req = "get_request [(''page'', ''10000000000000000000'')]"
  have h1: "(10000000000000000000 :: int) = args_get_int example_env (args ?req) ''page'' 1"
    and h2: "(25 :: int) = args_get_int example_env (args ?req) ''per_page'' 25"
    by (simp_all add: args_get_int_def get_request_def example_env_def example_int_def)
  have h3: "(10000000000000000000 :: int)
      = (if (10000000000000000000 :: int) < 1 then 1 else 10000000000000000000)"
    and h4: "(25 :: int) = (if (25 :: int) < 1 then 20 else 25)"
    by simp_all
  have h5: "\<not> db_lists example_env ((10000000000000000000 - 1) * 25) 25"
    by (simp add: example_env_def)
  have r: "get_all_products example_env example_db60 ?req
       = error_response (''Failed to fetch products: '' @ exc_str example_env SQLAlchemyError)
           500"
    by (rule get_all_products_refused[OF h1 h2 h3 h4 h5])
  then have "pagination_field ''pages'' (get_all_products example_env example_db60 ?req) = None"
    by (simp add: response_fields error_response_def)
  with r h1 h2 show ?thesis by simp
qed


text \<open>
  Claim C7, as amended. A parameter that is absent, or whose text is not an integer, takes
  its default: \<open>page = 1\<close>, \<open>per_page = 25\<close>; an integer that the caller supplies is
  reported in the metadata as it is. The slice is selected with the page replaced by 1 when
  it is below 1 and the page size replaced by 20 when it is below 1, so the parameters that
  select the slice are always at least 1. When the storage backend answers the query, the
  status is 200 and the data are that slice, which is empty for every page beyond the last
  one; when the backend refuses the query, the status is 500.
\<close>

theorem list_parameters:
  assumes "R = get_all_products E d req"
    and "page = (case int_arg E req ''page'' of None \<Rightarrow> 1 | Some i \<Rightarrow> i)"
    and "per_page = (case int_arg E req ''per_page'' of None \<Rightarrow> 25 | Some i \<Rightarrow> i)"
    and "used_page = (if page < 1 then 1 else page)"
    and "used_per_page = (if per_page < 1 then 20 else per_page)"
  shows "1 \<le> used_page \<and> 1 \<le> used_per_page
     \<and> (db_lists E ((used_page - 1) * used_per_page) used_per_page \<longrightarrow>
          snd R = 200
          \<and> pagination_field ''current_page'' R = Some (JInt page)
          \<and> pagination_field ''per_page'' R = Some (JInt per_page)
          \<and> json_field ''data'' (fst R)
              = Some (JList (map (to_dict E) (page_of_rows (rows d) used_page used_per_page)))
          \<and> (\<forall>k. pagination_field ''pages'' R = Some (JInt k) \<and> k < used_page \<longrightarrow>
                json_field ''data'' (fst R) = Some (JList [])))
     \<and> (\<not> db_lists E ((used_page - 1) * used_per_page) used_per_page \<longrightarrow>
          R = error_response (''Failed to fetch products: '' @ exc_str E SQLAlchemyError) 500)"
proof -
  have v: "1 \<le> used_page" "1 \<le> used_per_page"
    using assms(4,5) by simp_all
  have pg: "page = args_get_int E (args req) ''page'' 1"
    and pp: "per_page = args_get_int E (args req) ''per_page'' 25"
    using assms(2,3) by (simp_all add: args_get_int_arg)
  define n where "n = int (length (rows d))"
  have ok: "snd R = 200
          \<and> pagination_field ''current_page'' R = Some (JInt page)
          \<and> pagination_field ''per_page'' R = Some (JInt per_page)
          \<and> json_field ''data'' (fst R)
              = Some (JList (map (to_dict E) (page_of_rows (rows d) used_page used_per_page)))
          \<and> (\<forall>k. pagination_field ''pages'' R = Some (JInt k) \<and> k < used_page \<longrightarrow>
                json_field ''data'' (fst R) = Some (JList []))"
    if a: "db_lists E ((used_page - 1) * used_per_page) used_per_page"
  proof -
    have R: "R =
     (JDict
        [(''status'', JStr ''success''),
         (''data'', JList (map (to_dict E) (page_of_rows (rows d) used_page used_per_page))),
         (''pagination'', JDict
            [(''total'', JInt n),
             (''pages'', JInt ((n + used_per_page - 1) div used_per_page)),
             (''current_page'', JInt page),
             (''per_page'', JInt per_page),
             (''has_next'', JBool (used_page < (n + used_per_page - 1) div used_per_page)),
             (''has_prev'', JBool (1 < used_page))])], 200)"
      unfolding assms(1)
      by (rule get_all_products_answered[OF pg pp assms(4,5) a n_def])
    have empty: "page_of_rows (rows d) used_page used_per_page = []"
      if k: "(n + used_per_page - 1) div used_per_page < used_page"
    proof -
      have "\<lceil>(of_int n :: rat) / of_int used_per_page\<rceil> \<le> used_page - 1"
        using k v(2) by (simp add: ceiling_div)
      then have "(of_int n :: rat) / of_int used_per_page \<le> of_int (used_page - 1)"
        by (simp only: ceiling_le_iff)
      then have "(of_int n :: rat) \<le> of_int ((used_page - 1) * used_per_page)"
        using v(2) by (simp add: pos_divide_le_eq)
      then have "n \<le> (used_page - 1) * used_per_page"
        by (simp only: of_int_le_iff)
      then have "length (page_of_rows (rows d) used_page used_per_page) = 0"
        using length_page_of_rows[OF v, of "rows d"] v(2) by (simp add: n_def)
      then show ?thesis by simp
    qed
    show ?thesis
      using empty by (simp add: R response_fields)
  qed
  have refused: "R = error_response (''Failed to fetch products: '' @ exc_str E SQLAlchemyError) 500"
    if a: "\<not> db_lists E ((used_page - 1) * used_per_page) used_per_page"
    unfolding assms(1)
    by (rule get_all_products_refused[OF pg pp assms(4,5) a])
  from v ok refused show ?thesis by blast
qed

theorem list_parameters_witness:
  "int_arg example_env (get_request [(''page'', ''4''), (''per_page'', ''abc'')]) ''page''
       = Some 4
   \<and> int_arg example_env (get_request [(''page'', ''4''), (''per_page'', ''abc'')]) ''per_page''
       = None
   \<and> db_lists example_env ((4 - 1) * 25) 25
   \<and> snd (get_all_products example_env example_db
            (get_request [(''page'', ''4''), (''per_page'', ''abc'')])) = 200
   \<and> pagination_field ''current_page''
         (get_all_products example_env example_db
            (get_request [(''page'', ''4''), (''per_page'', ''abc'')])) = Some (JInt 4)
   \<and> pagination_field ''per_page''
         (get_all_products example_env example_db
            (get_request [(''page'', ''4''), (''per_page'', ''abc'')])) = Some (JInt 25)
   \<and> pagination_field ''pages''
         (get_all_products example_env example_db
            (get_request [(''page'', ''4''), (''per_page'', ''abc'')])) = Some (JInt 1)
   \<and> json_field ''data''
         (fst (get_all_products example_env example_db
            (get_request [(''page'', ''4''), (''per_page'', ''abc'')]))) = Some (JList [])"
proof -
  let ?req = "get_request [(''page'', ''4''), (''per_page'', ''abc'')]"
  let ?R = "get_all_products example_env example_db ?req"
  have a: "int_arg example_env ?req ''page'' = Some 4"
    "int_arg example_env ?req ''per_page'' = None"
    by (simp_all add: int_arg_def get_request_def example_env_def example_int_def)
  have h2: "(4 :: int) = (case int_arg example_env ?req ''page'' of None \<Rightarrow> 1 | Some i \<Rightarrow> i)"
    and h3: "(25 :: int)
      = (case int_arg example_env ?req ''per_page'' of None \<Rightarrow> 25 | Some i \<Rightarrow> i)"
    by (simp_all add: a)
  have h4: "(4 :: int) = (if (4 :: int) < 1 then 1 else 4)"
    and h5: "(25 :: int) = (if (25 :: int) < 1 then 20 else 25)"
    by simp_all
  have b: "db_lists example_env ((4 - 1) * 25) 25"
    by (simp add: example_env_def)
  have k: "pagination_field ''pages'' ?R = Some (JInt 1)"
    using get_all_products_answered[of 4 example_env ?req 25 4 25 1 example_db] a b
    by (simp add: args_get_int_arg example_db_def response_fields)
  from list_parameters [OF refl h2 h3 h4 h5, of example_db] b
  have s: "snd ?R = 200" and c: "pagination_field ''current_page'' ?R = Some (JInt 4)"
    and p: "pagination_field ''per_page'' ?R = Some (JInt 25)"
    and e: "\<forall>k. pagination_field ''pages'' ?R = Some (JInt k) \<and> k < 4 \<longrightarrow>
                json_field ''data'' (fst ?R) = Some (JList [])"
    by blast+
  from e k have "json_field ''data'' (fst ?R) = Some (JList [])" by simp
  with a b s c p k show ?thesis by simp
qed

text \<open>
  Claim C7 as stated fails: in the request \<open>?per_page=-5\<close> the page size is an integer
  below 1. It is not replaced by 25: over 60 records the first page comes back with 20 of
  them, and the metadata report \<open>per_page = -5\<close>.
\<close>

theorem list_parameters_counterexample:
  "int_arg example_env (get_request [(''per_page'', ''-5'')]) ''per_page'' = Some (- 5)
   \<and> \<not> (1 :: int) \<le> - 5
   \<and> length (rows example_db60) = 60
   \<and> snd (get_all_products example_env example_db60 (get_request [(''per_page'', ''-5'')]))
       = 200
   \<and> pagination_field ''per_page''
         (get_all_products example_env example_db60 (get_request [(''per_page'', ''-5'')]))
       = Some (JInt (- 5))
   \<and> data_length
         (get_all_products example_env example_db60 (get_request [(''per_page'', ''-5'')]))
       = Some 20
   \<and> (20 :: nat) \<noteq> 25"
proof -
  let ?req = "get_request [(''per_page'', ''-5'')]"
  have a: "(1 :: int) = args_get_int example_env (args ?req) ''page'' 1"
    and b: "(- 5 :: int) = args_get_int example_env (args ?req) ''per_page'' 25"
    by (simp_all add: args_get_int_def get_request_def example_env_def example_int_def)
  have c: "(1 :: int) = (if (1 :: int) < 1 then 1 else 1)"
    and d: "(20 :: int) = (if (- 5 :: int) < 1 then 20 else - 5)"
    by simp_all
  have e: "db_lists example_env ((1 - 1) * 20) 20"
    by (simp add: example_env_def)
  have n: "(60 :: int) = int (length (rows example_db60))"
    by (simp add: example_db60_def)
  have l: "length (page_of_rows (rows example_db60) 1 20) = 20"
    by (simp add: page_of_rows_def example_db60_def)
  have i: "int_arg example_env ?req ''per_page'' = Some (- 5)"
    by (simp add: int_arg_def get_request_def example_env_def example_int_def)
  show ?thesis
    using l i n
    by (simp add: get_all_products_answered[OF a b c d e n] response_fields)
qed

end
